theory Spec2Isabelle
  imports Complex_Main
begin

section \<open>CalorieAdjustmentService: data model\<close>

text \<open>
  The embedding follows \<^verbatim>\<open>src/services/CalorieAdjustmentService.ts\<close>.
  Conventions of the model:
  \<^item> a JavaScript \<^verbatim>\<open>number\<close> is a \<^typ>\<open>real\<close>, and the result of every addition,
    subtraction, multiplication and division is rounded to the nearest double
    (\<open>binary64\<close> below); NaN, the infinities and the sign of zero are not modelled;
  \<^item> a timestamp is an \<^typ>\<open>int\<close>, the milliseconds that \<^verbatim>\<open>Date.getTime()\<close> returns;
  \<^item> the wall clock \<^verbatim>\<open>new Date()\<close> is the parameter \<open>now\<close>, and the date that
    \<^verbatim>\<open>setDate(getDate() - 28)\<close> computes from the clock, in the local calendar, is the
    parameter \<open>fourWeeksAgo\<close>;
  \<^item> a string is a \<^typ>\<open>string\<close> holding its UTF-8 bytes; on well-formed text
    \<^verbatim>\<open>String.prototype.includes\<close> gives the same answer on bytes as on UTF-16 units;
  \<^item> an optional field is an \<^typ>\<open>'a option\<close>, and \<^verbatim>\<open>x || d\<close> is written out with
    JavaScript's falsy values (\<^verbatim>\<open>undefined\<close>, \<^verbatim>\<open>0\<close>, the empty string);
  \<^item> an array that a function sorts in place is returned by the model of that function.
\<close>

text \<open>
  \<^verbatim>\<open>WeightEntry\<close> (declared in the weight-history service). The field \<open>date\<close> holds
  \<^verbatim>\<open>new Date(e.date).getTime()\<close>, the only way the service reads the date string.
\<close>

record WeightEntry =
  entry_id :: string
  user_id :: string
  weight :: real
  date :: int
  created_at :: string

datatype GoalStatus = active | achieved | abandoned

text \<open>
  Modelled from the spec: the declarations of \<^verbatim>\<open>WeightGoal\<close> and \<^verbatim>\<open>User\<close> live in the
  types module, which is not part of the sources at hand. The fields are those that the
  service reads; each optional field of the profile is an option.
\<close>

record WeightGoal =
  startWeight :: real
  targetWeight :: real
  startDate :: string
  status :: GoalStatus

datatype Gender = masculino | feminino | outro

datatype ActivityLevel = sedentario | leve | moderado | intenso | muito_intenso

text \<open>
  What \<^verbatim>\<open>getUserActivityLevel\<close> can return at run time: a level of the table, or the
  value of a property that the table inherits from \<^verbatim>\<open>Object.prototype\<close> (named by its key).
\<close>

datatype ActivityValue = Level ActivityLevel | Inherited string

datatype Goal = perder_peso | manter_peso | ganhar_massa

record User =
  userWeight :: "real option"
  height :: "real option"
  age :: "real option"
  gender :: "Gender option"
  activityLevel :: "string option"
  goal :: "string option"
  dailyCalorieGoal :: real
  isClinicalMode :: bool
  weightGoal :: "WeightGoal option"

datatype Reason =
  weight_changed | plateau_detected | fast_loss | slow_progress | goal_achieved | none

datatype Severity = info | warning | success

record CalorieAdjustment =
  shouldAdjust :: bool
  reason :: Reason
  previousGoal :: real
  suggestedGoal :: real
  difference :: real
  message :: string
  severity :: Severity

datatype AlertType =
  alert_fast_loss | alert_fast_gain | alert_slow_progress | alert_on_track | alert_goal_achieved

record WeightChangeAlert =
  alertType :: AlertType
  weeklyChange :: real
  alertMessage :: string
  recommendation :: "string option"

text \<open>The anonymous result type of \<^verbatim>\<open>shouldRecalculateCalories\<close>.\<close>

record Recalculation =
  shouldRecalculate :: bool
  triggerReason :: string

section \<open>Collaborators\<close>

text \<open>
  The nutrition calculator, the plateau detector and the number formatter
  \<^verbatim>\<open>Number.prototype.toFixed(1)\<close> are not part of the service. They are parameters of
  the model, so every theorem holds for whatever they compute.
\<close>

record AdjustedWeight =
  weightForCalc :: real

record CarbResult =
  carbGrams :: real

record PlateauAnalysis =
  suggestion :: string
  plateauMessage :: string

record Env =
  toFixed1 :: "real \<Rightarrow> string"
  calculateBMR :: "real \<Rightarrow> real \<Rightarrow> real \<Rightarrow> Gender \<Rightarrow> real"
  calculateTDEE :: "real \<Rightarrow> ActivityValue \<Rightarrow> real"
  calculateCalorieGoal :: "real \<Rightarrow> Goal \<Rightarrow> real"
  calculateAdjustedWeight :: "real \<Rightarrow> real \<Rightarrow> real \<Rightarrow> AdjustedWeight"
  calculateProtein :: "real \<Rightarrow> Goal \<Rightarrow> bool \<Rightarrow> real"
  calculateFat :: "real \<Rightarrow> real"
  calculateCarbs :: "real \<Rightarrow> real \<Rightarrow> real \<Rightarrow> CarbResult"
  detectPlateau :: "WeightEntry list \<Rightarrow> real \<Rightarrow> real \<Rightarrow> PlateauAnalysis"

section \<open>The number type\<close>

text \<open>
  Rounding to the nearest double, a tie going to the even significand (IEEE 754
  binary64, the arithmetic of \<^verbatim>\<open>number\<close>): 53 bits of significand, the least exponent
  that of the subnormal numbers. Results of magnitude \<open>2\<^sup>1\<^sup>0\<^sup>2\<^sup>4\<close> and above, which the
  language turns into an infinity, are outside the model.
\<close>

definition pow2 :: "int \<Rightarrow> real" where
  "pow2 e = (if 0 \<le> e then 2 ^ nat e else 1 / 2 ^ nat (- e))"

text \<open>
  The exponent \<open>k\<close> with \<open>2\<^sup>k \<le> x < 2\<^sup>k\<^sup>+\<^sup>1\<close> of a positive number, by halving or doubling;
  the fuel covers every exponent of a double.
\<close>

fun scaleExp :: "nat \<Rightarrow> real \<Rightarrow> int \<Rightarrow> int" where
  "scaleExp 0 x k = k"
| "scaleExp (Suc n) x k =
     (if 2 \<le> x then scaleExp n (x / 2) (k + 1)
      else if x < 1 then scaleExp n (x * 2) (k - 1)
      else k)"

definition floorLog2 :: "real \<Rightarrow> int" where
  "floorLog2 x = scaleExp 2200 x 0"

definition roundHalfEven :: "real \<Rightarrow> int" where
  "roundHalfEven m =
     (let f = \<lfloor>m\<rfloor>; d = m - of_int f
      in if d < 1 / 2 then f
         else if 1 / 2 < d then f + 1
         else if even f then f else f + 1)"

definition binary64 :: "real \<Rightarrow> real" where
  "binary64 x =
     (if x = 0 then 0
      else let e = max (floorLog2 \<bar>x\<bar> - 52) (- 1074)
           in of_int (roundHalfEven (x / pow2 e)) * pow2 e)"

text \<open>
  A decimal literal of the source denotes the nearest double. The literals of the service
  are doubles themselves (\<open>0.5\<close>, \<open>1\<close>, \<open>2\<close>, \<open>7\<close>, \<open>70\<close>, \<open>100\<close>, \<open>250\<close>, ...) except
  \<open>0.2\<close>, which is written \<open>binary64 0.2\<close>. Timestamps and their differences are integers
  far below \<open>2\<^sup>5\<^sup>3\<close>, where the arithmetic of doubles is exact.
\<close>

section \<open>JavaScript primitives\<close>

text \<open>\<^verbatim>\<open>x || d\<close> on an optional number: \<^verbatim>\<open>undefined\<close> and \<^verbatim>\<open>0\<close> are falsy.\<close>

definition orNumber :: "real option \<Rightarrow> real \<Rightarrow> real" where
  "orNumber x d = (case x of None \<Rightarrow> d | Some v \<Rightarrow> if v = 0 then d else v)"

text \<open>\<^verbatim>\<open>x || d\<close> on an optional string: \<^verbatim>\<open>undefined\<close> and the empty string are falsy.\<close>

definition orString :: "string option \<Rightarrow> string \<Rightarrow> string" where
  "orString x d = (case x of None \<Rightarrow> d | Some v \<Rightarrow> if v = [] then d else v)"

text \<open>\<^verbatim>\<open>Math.round\<close>: the nearest integer, a tie going up (an exact operation).\<close>

definition mathRound :: "real \<Rightarrow> real" where
  "mathRound x = of_int \<lfloor>x + 1 / 2\<rfloor>"

fun startsWith :: "string \<Rightarrow> string \<Rightarrow> bool" where
  "startsWith s [] = True"
| "startsWith [] (c # cs) = False"
| "startsWith (d # ds) (c # cs) = (d = c \<and> startsWith ds cs)"

text \<open>\<^verbatim>\<open>s.includes(sub)\<close>: \<open>sub\<close> occurs in \<open>s\<close> at some position.\<close>

fun includesStr :: "string \<Rightarrow> string \<Rightarrow> bool" where
  "includesStr [] sub = (sub = [])"
| "includesStr (d # ds) sub = (startsWith (d # ds) sub \<or> includesStr ds sub)"

text \<open>
  \<^verbatim>\<open>xs.sort((a, b) => new Date(b.date).getTime() - new Date(a.date).getTime())\<close>:
  newest first. The sort of the language is stable (entries of one date keep their
  order), and so is \<^const>\<open>sort_key\<close>.
\<close>

definition sortByDateDesc :: "WeightEntry list \<Rightarrow> WeightEntry list" where
  "sortByDateDesc xs = sort_key (\<lambda>e. - date e) xs"

text \<open>The accented letters and pictographs of the message texts, as UTF-8.\<close>

definition a_acute :: string where "a_acute = [CHR 0xC3, CHR 0xA1]"
definition a_tilde :: string where "a_tilde = [CHR 0xC3, CHR 0xA3]"
definition c_cedil :: string where "c_cedil = [CHR 0xC3, CHR 0xA7]"
definition e_acute :: string where "e_acute = [CHR 0xC3, CHR 0xA9]"
definition e_circ :: string where "e_circ = [CHR 0xC3, CHR 0xAA]"
definition i_acute :: string where "i_acute = [CHR 0xC3, CHR 0xAD]"
definition o_acute :: string where "o_acute = [CHR 0xC3, CHR 0xB3]"
definition o_circ :: string where "o_circ = [CHR 0xC3, CHR 0xB4]"
definition u_acute :: string where "u_acute = [CHR 0xC3, CHR 0xBA]"
definition party_popper :: string where
  "party_popper = [CHR 0xF0, CHR 0x9F, CHR 0x8E, CHR 0x89]"
definition warning_sign :: string where
  "warning_sign = [CHR 0xE2, CHR 0x9A, CHR 0xA0, CHR 0xEF, CHR 0xB8, CHR 0x8F]"
definition chart_up :: string where
  "chart_up = [CHR 0xF0, CHR 0x9F, CHR 0x93, CHR 0x88]"
definition check_mark :: string where
  "check_mark = [CHR 0xE2, CHR 0x9C, CHR 0x85]"
definition arrows_circle :: string where
  "arrows_circle = [CHR 0xF0, CHR 0x9F, CHR 0x94, CHR 0x84]"

section \<open>calculateWeeklyChange\<close>

definition msPerDay :: int where
  "msPerDay = 1000 * 60 * 60 * 24"

definition calculateWeeklyChange :: "int \<Rightarrow> WeightEntry list \<Rightarrow> real" where
  "calculateWeeklyChange now weightHistory =
    (if length weightHistory < 2 then 0
     else
       let sorted = sortByDateDesc weightHistory;
           weekAgo = now - 7 * 24 * 60 * 60 * 1000;
           recentEntry = hd sorted;
           weekOldEntries = filter (\<lambda>e. date e \<le> weekAgo) sorted
       in if length weekOldEntries = 0 then
            let oldestEntry = sorted ! (length sorted - 1);
                daysDiff = max 1 (binary64 (real_of_int (date recentEntry - date oldestEntry)
                                              / (1000 * 60 * 60 * 24)))
            in binary64 (binary64 (binary64 (weight recentEntry - weight oldestEntry)
                                     / daysDiff) * 7)
          else
            let weekOldEntry = hd weekOldEntries
            in binary64 (weight recentEntry - weight weekOldEntry))"

section \<open>checkWeightVelocity\<close>

definition msgGoalReached :: string where
  "msgGoalReached = party_popper @ '' Parab'' @ e_acute @ ''ns! Voc'' @ e_circ
     @ '' alcan'' @ c_cedil @ ''ou sua meta de peso!''"

definition recNewGoal :: string where
  "recNewGoal = ''Considere definir uma nova meta ou entrar em modo de manuten''
     @ c_cedil @ a_tilde @ ''o.''"

definition recFastLoss :: string where
  "recFastLoss = ''Perda superior a 1kg/semana pode causar perda muscular e efeito rebote. ''
     @ ''Considere aumentar calorias em 200-300kcal.''"

definition recFastGain :: string where
  "recFastGain = ''Verifique seus registros alimentares. Isso pode ser reten'' @ c_cedil
     @ a_tilde @ ''o de '' @ a_acute @ ''gua ou varia'' @ c_cedil @ a_tilde @ ''o normal.''"

definition recSlowProgress :: string where
  "recSlowProgress = ''Considere revisar seu d'' @ e_acute @ ''ficit cal'' @ o_acute
     @ ''rico ou aumentar atividade f'' @ i_acute @ ''sica.''"

text \<open>
  The function sorts the array it was given, in place (\<^verbatim>\<open>weightHistory.sort(...)\<close> with
  no copy), when the array is not empty. The second component of the result is the
  caller's array as the call leaves it.
\<close>

definition checkWeightVelocity ::
  "Env \<Rightarrow> int \<Rightarrow> WeightEntry list \<Rightarrow> WeightGoal \<Rightarrow> WeightChangeAlert \<times> WeightEntry list" where
  "checkWeightVelocity env now weightHistory wGoal =
    (let weeklyChange = calculateWeeklyChange now weightHistory;
         isLosing = (startWeight wGoal > targetWeight wGoal);
         absChange = \<bar>weeklyChange\<bar>;
         weightHistory' = (if length weightHistory > 0 then sortByDateDesc weightHistory
                           else weightHistory)
     in if length weightHistory > 0 \<and> isLosing
           \<and> weight (hd weightHistory') \<le> targetWeight wGoal then
          (\<lparr>alertType = alert_goal_achieved, weeklyChange = weeklyChange,
            alertMessage = msgGoalReached, recommendation = Some recNewGoal\<rparr>, weightHistory')
        else if length weightHistory > 0 \<and> \<not> isLosing
           \<and> weight (hd weightHistory') \<ge> targetWeight wGoal then
          (\<lparr>alertType = alert_goal_achieved, weeklyChange = weeklyChange,
            alertMessage = msgGoalReached, recommendation = Some recNewGoal\<rparr>, weightHistory')
        else if isLosing \<and> weeklyChange < - 1 then
          (\<lparr>alertType = alert_fast_loss, weeklyChange = weeklyChange,
            alertMessage = warning_sign @ '' Perda r'' @ a_acute @ ''pida detectada: ''
              @ toFixed1 env absChange @ ''kg em uma semana'',
            recommendation = Some recFastLoss\<rparr>, weightHistory')
        else if isLosing \<and> weeklyChange > 0.5 then
          (\<lparr>alertType = alert_fast_gain, weeklyChange = weeklyChange,
            alertMessage = chart_up @ '' Ganho de '' @ toFixed1 env absChange
              @ ''kg esta semana'',
            recommendation = Some recFastGain\<rparr>, weightHistory')
        else if isLosing \<and> weeklyChange > - binary64 0.2 \<and> weeklyChange \<le> 0 then
          (\<lparr>alertType = alert_slow_progress, weeklyChange = weeklyChange,
            alertMessage = ''Progresso lento detectado'',
            recommendation = Some recSlowProgress\<rparr>, weightHistory')
        else
          (\<lparr>alertType = alert_on_track, weeklyChange = weeklyChange,
            alertMessage =
              (if isLosing
               then check_mark @ '' Perda saud'' @ a_acute @ ''vel: ''
                      @ toFixed1 env absChange @ ''kg esta semana''
               else check_mark @ '' Ganho saud'' @ a_acute @ ''vel: ''
                      @ toFixed1 env absChange @ ''kg esta semana''),
            recommendation = None\<rparr>, weightHistory'))"

section \<open>shouldRecalculateCalories\<close>

definition reasonWeightChanged :: "Env \<Rightarrow> real \<Rightarrow> string" where
  "reasonWeightChanged env weightDiff =
     ''Seu peso mudou '' @ toFixed1 env weightDiff @ ''kg desde o '' @ u_acute
       @ ''ltimo c'' @ a_acute @ ''lculo''"

definition reasonPlateau :: string where
  "reasonPlateau = ''Poss'' @ i_acute @ ''vel plat'' @ o_circ @ '' detectado - peso est''
     @ a_acute @ ''vel h'' @ a_acute @ '' 4+ semanas''"

text \<open>
  \<^verbatim>\<open>fourWeeksAgo.setDate(fourWeeksAgo.getDate() - 28)\<close> moves the clock back 28 days of the
  local calendar, which is 28 times 24 hours, give or take the hour of a daylight-saving
  change in between. The function reads the clock for nothing else, so the model takes
  the resulting timestamp \<open>fourWeeksAgo\<close> as its parameter.
\<close>

definition shouldRecalculateCalories ::
  "Env \<Rightarrow> int \<Rightarrow> real \<Rightarrow> real \<Rightarrow> WeightEntry list \<Rightarrow> Recalculation" where
  "shouldRecalculateCalories env fourWeeksAgo currentWeight lastCalculatedWeight weightHistory =
    (let weightDiff = \<bar>binary64 (currentWeight - lastCalculatedWeight)\<bar>
     in if weightDiff \<ge> 2 then
          \<lparr>shouldRecalculate = True, triggerReason = reasonWeightChanged env weightDiff\<rparr>
        else if length weightHistory \<ge> 4 then
          (let sorted = sortByDateDesc weightHistory;
               oldEntries = filter (\<lambda>e. date e \<le> fourWeeksAgo) sorted
           in if length oldEntries > 0 then
                (let fourWeekChange = \<bar>binary64 (currentWeight - weight (hd oldEntries))\<bar>
                 in if fourWeekChange < 0.5 then
                      \<lparr>shouldRecalculate = True, triggerReason = reasonPlateau\<rparr>
                    else \<lparr>shouldRecalculate = False, triggerReason = []\<rparr>)
              else \<lparr>shouldRecalculate = False, triggerReason = []\<rparr>)
        else \<lparr>shouldRecalculate = False, triggerReason = []\<rparr>)"

section \<open>Profile helpers\<close>

definition calculateUserCalories ::
  "Env \<Rightarrow> real \<Rightarrow> real \<Rightarrow> real \<Rightarrow> Gender \<Rightarrow> ActivityValue \<Rightarrow> Goal \<Rightarrow> real" where
  "calculateUserCalories env w h a g lvl gl =
    (let bmr = calculateBMR env w h a g;
         tdee = calculateTDEE env bmr lvl
     in calculateCalorieGoal env tdee gl)"

definition activityMap :: "(string \<times> ActivityLevel) list" where
  "activityMap =
    [(''sedentario'', sedentario),
     (''leve'', leve),
     (''moderado'', moderado),
     (''ativo'', intenso),
     (''intenso'', intenso),
     (''muito_ativo'', muito_intenso),
     (''muito_intenso'', muito_intenso)]"

text \<open>
  The names that the \<^verbatim>\<open>in\<close> operator finds on every object literal, through
  \<^verbatim>\<open>Object.prototype\<close>.
\<close>

definition prototypeKeys :: "string list" where
  "prototypeKeys =
    [''constructor'', ''hasOwnProperty'', ''isPrototypeOf'', ''propertyIsEnumerable'',
     ''toLocaleString'', ''toString'', ''valueOf'', ''__proto__'',
     ''__defineGetter__'', ''__defineSetter__'', ''__lookupGetter__'', ''__lookupSetter__'']"

text \<open>
  \<^verbatim>\<open>user.activityLevel && user.activityLevel in activityMap\<close>: a key of the table, or
  an inherited name, for which the lookup returns the inherited property.
\<close>

definition getUserActivityLevel :: "User \<Rightarrow> ActivityValue" where
  "getUserActivityLevel user =
    (case activityLevel user of
       None \<Rightarrow> Level sedentario
     | Some a \<Rightarrow>
         (if a \<noteq> [] then
            (case map_of activityMap a of
               Some lvl \<Rightarrow> Level lvl
             | None \<Rightarrow> if a \<in> set prototypeKeys then Inherited a else Level sedentario)
          else Level sedentario))"

definition validGoals :: "(string \<times> Goal) list" where
  "validGoals =
    [(''perder_peso'', perder_peso),
     (''manter_peso'', manter_peso),
     (''ganhar_massa'', ganhar_massa)]"

definition getUserGoal :: "User \<Rightarrow> Goal" where
  "getUserGoal user =
    (case goal user of
       None \<Rightarrow> manter_peso
     | Some g \<Rightarrow>
         (if g \<noteq> [] then
            (case map_of validGoals g of Some gl \<Rightarrow> gl | None \<Rightarrow> manter_peso)
          else manter_peso))"

section \<open>analyzeCalorieAdjustment\<close>

definition msgNoActiveGoal :: string where
  "msgNoActiveGoal = ''Nenhuma meta de peso ativa''"

definition msgMaintenance :: string where
  "msgMaintenance = party_popper @ '' Meta alcan'' @ c_cedil @ ''ada! Transitando para modo manuten''
     @ c_cedil @ a_tilde @ ''o.''"

definition msgGoalsFine :: string where
  "msgGoalsFine = ''Suas metas est'' @ a_tilde @ ''o adequadas''"

definition msgDietBreak :: string where
  "msgDietBreak = arrows_circle @ '' Plat'' @ o_circ
     @ '' detectado. Sugerimos uma semana de manuten'' @ c_cedil @ a_tilde
     @ ''o para resetar o metabolismo.''"

text \<open>The needle of \<^verbatim>\<open>reason.includes(...)\<close>.\<close>

definition plato :: string where
  "plato = ''plat'' @ o_circ"

text \<open>
  The result is the adjustment together with the caller's array as the call leaves it:
  \<^const>\<open>checkWeightVelocity\<close> sorts that array in place, and the later steps
  (\<^const>\<open>shouldRecalculateCalories\<close>, the plateau detector) read the sorted array.
\<close>

definition analyzeCalorieAdjustment ::
  "Env \<Rightarrow> int \<Rightarrow> int \<Rightarrow> User \<Rightarrow> WeightEntry list \<Rightarrow> real option
     \<Rightarrow> CalorieAdjustment \<times> WeightEntry list" where
  "analyzeCalorieAdjustment env now fourWeeksAgo user weightHistory lastCalculatedWeight =
    (let currentWeight = orNumber (userWeight user) 70;
         previousWeight = orNumber lastCalculatedWeight currentWeight
     in case (case weightGoal user of
                None \<Rightarrow> None
              | Some g \<Rightarrow> if status g \<noteq> active then None else Some g) of
          None \<Rightarrow>
            (\<lparr>shouldAdjust = False, reason = none,
              previousGoal = dailyCalorieGoal user,
              suggestedGoal = dailyCalorieGoal user,
              difference = 0,
              message = msgNoActiveGoal,
              severity = info\<rparr>, weightHistory)
        | Some wGoal \<Rightarrow>
            (let (velocityAlert, weightHistory') = checkWeightVelocity env now weightHistory wGoal
             in if alertType velocityAlert = alert_goal_achieved then
                  (let maintenanceCalories = calculateUserCalories env
                         currentWeight
                         (orNumber (height user) 170)
                         (orNumber (age user) 30)
                         (case gender user of None \<Rightarrow> masculino | Some g \<Rightarrow> g)
                         (getUserActivityLevel user)
                         manter_peso
                   in (\<lparr>shouldAdjust = True, reason = goal_achieved,
                         previousGoal = dailyCalorieGoal user,
                         suggestedGoal = maintenanceCalories,
                         difference = binary64 (maintenanceCalories - dailyCalorieGoal user),
                         message = msgMaintenance,
                         severity = success\<rparr>, weightHistory'))
                else
                  (let recalc = shouldRecalculateCalories env fourWeeksAgo
                         currentWeight previousWeight weightHistory'
                   in if \<not> shouldRecalculate recalc then
                        (if alertType velocityAlert = alert_fast_loss then
                           (let increased = binary64 (dailyCalorieGoal user + 250)
                            in (\<lparr>shouldAdjust = True, reason = fast_loss,
                                  previousGoal = dailyCalorieGoal user,
                                  suggestedGoal = increased,
                                  difference = 250,
                                  message = orString (recommendation velocityAlert)
                                              ''Considere aumentar calorias'',
                                  severity = warning\<rparr>, weightHistory'))
                         else
                           (\<lparr>shouldAdjust = False, reason = none,
                             previousGoal = dailyCalorieGoal user,
                             suggestedGoal = dailyCalorieGoal user,
                             difference = 0,
                             message = msgGoalsFine,
                             severity = info\<rparr>, weightHistory'))
                      else
                        (let adjustedWeight = calculateAdjustedWeight env
                               currentWeight
                               (targetWeight wGoal)
                               (orNumber (height user) 170);
                             newCalorieGoal = calculateUserCalories env
                               (weightForCalc adjustedWeight)
                               (orNumber (height user) 170)
                               (orNumber (age user) 30)
                               (case gender user of None \<Rightarrow> masculino | Some g \<Rightarrow> g)
                               (getUserActivityLevel user)
                               (getUserGoal user);
                             diff = binary64 (newCalorieGoal - dailyCalorieGoal user)
                         in if includesStr (triggerReason recalc) plato then
                              (let estimatedDeficit =
                                     mathRound (binary64 (dailyCalorieGoal user * binary64 0.2));
                                   plateauAnalysis = detectPlateau env weightHistory'
                                     (dailyCalorieGoal user) estimatedDeficit
                               in if suggestion plateauAnalysis = ''maintenance_week'' then
                                    (\<lparr>shouldAdjust = True, reason = plateau_detected,
                                      previousGoal = dailyCalorieGoal user,
                                      suggestedGoal = binary64 (dailyCalorieGoal user + 300),
                                      difference = 300,
                                      message = msgDietBreak,
                                      severity = warning\<rparr>, weightHistory')
                                  else
                                    (\<lparr>shouldAdjust = True, reason = plateau_detected,
                                      previousGoal = dailyCalorieGoal user,
                                      suggestedGoal = binary64 (newCalorieGoal - 100),
                                      difference = binary64 (binary64 (newCalorieGoal - 100)
                                                     - dailyCalorieGoal user),
                                      message = plateauMessage plateauAnalysis,
                                      severity = warning\<rparr>, weightHistory'))
                            else
                              (\<lparr>shouldAdjust = True, reason = weight_changed,
                                previousGoal = dailyCalorieGoal user,
                                suggestedGoal = newCalorieGoal,
                                difference = diff,
                                message = triggerReason recalc @ ''. Novas metas calculadas.'',
                                severity = info\<rparr>, weightHistory')))))"

section \<open>recalculateMacrosForAdjustment\<close>

record Macros =
  protein :: real
  carbs :: real
  fats :: real

definition recalculateMacrosForAdjustment :: "Env \<Rightarrow> real \<Rightarrow> User \<Rightarrow> Macros" where
  "recalculateMacrosForAdjustment env newCalorieGoal user =
    (let proteinWeight =
           (case weightGoal user of
              None \<Rightarrow> orNumber (userWeight user) 70
            | Some wGoal \<Rightarrow>
                weightForCalc (calculateAdjustedWeight env
                  (orNumber (userWeight user) 70)
                  (targetWeight wGoal)
                  (orNumber (height user) 170)));
         gl = getUserGoal user;
         prot = calculateProtein env proteinWeight gl (isClinicalMode user);
         fts = calculateFat env proteinWeight;
         carbResult = calculateCarbs env newCalorieGoal prot fts
     in \<lparr>protein = prot, carbs = carbGrams carbResult, fats = fts\<rparr>)"

section \<open>Notions used to state the properties\<close>

text \<open>
  The most recent entry of a history: no entry has a later date, and among the entries
  of that date it is the first one in the order of the input.
\<close>

definition mostRecent :: "WeightEntry list \<Rightarrow> WeightEntry \<Rightarrow> bool" where
  "mostRecent h e \<longleftrightarrow>
     e \<in> set h \<and> (\<forall>e' \<in> set h. date e' \<le> date e)
       \<and> find (\<lambda>x. date x = date e) h = Some e"

text \<open>
  The oldest entry of a history: no entry has an earlier date, and among the entries of
  that date it is the last one in the order of the input.
\<close>

definition oldestOf :: "WeightEntry list \<Rightarrow> WeightEntry \<Rightarrow> bool" where
  "oldestOf h e \<longleftrightarrow>
     e \<in> set h \<and> (\<forall>e' \<in> set h. date e \<le> date e')
       \<and> find (\<lambda>x. date x = date e) (rev h) = Some e"

text \<open>The entries dated at or before a cutoff, in the order of the input.\<close>

definition onOrBefore :: "int \<Rightarrow> WeightEntry list \<Rightarrow> WeightEntry list" where
  "onOrBefore cutoff h = filter (\<lambda>e. date e \<le> cutoff) h"

text \<open>
  The obesity-adjusted weight of a profile and a goal: \<^verbatim>\<open>calculateAdjustedWeight\<close> of the
  current weight, the target weight and the height, each with its default.
\<close>

definition obesityAdjustedWeight :: "Env \<Rightarrow> User \<Rightarrow> WeightGoal \<Rightarrow> real" where
  "obesityAdjustedWeight env user g =
     weightForCalc (calculateAdjustedWeight env
       (orNumber (userWeight user) 70) (targetWeight g) (orNumber (height user) 170))"

text \<open>The macro formulas applied to one body weight.\<close>

definition macrosAt :: "Env \<Rightarrow> real \<Rightarrow> User \<Rightarrow> real \<Rightarrow> Macros" where
  "macrosAt env newCalorieGoal user w =
     \<lparr>protein = calculateProtein env w (getUserGoal user) (isClinicalMode user),
      carbs = carbGrams (calculateCarbs env newCalorieGoal
                (calculateProtein env w (getUserGoal user) (isClinicalMode user))
                (calculateFat env w)),
      fats = calculateFat env w\<rparr>"

section \<open>Sample collaborators and inputs\<close>

text \<open>
  One choice of collaborators and a few histories, to run the functions on concrete
  inputs. No general theorem depends on them.
\<close>

definition digitChar :: "nat \<Rightarrow> char" where
  "digitChar n = ''0123456789'' ! (n mod 10)"

function natDigits :: "nat \<Rightarrow> string" where
  "natDigits n = (if n < 10 then [digitChar n] else natDigits (n div 10) @ [digitChar n])"
  by pat_completeness auto
termination
  by (relation "measure (\<lambda>n. n)") auto

text \<open>\<^verbatim>\<open>x.toFixed(1)\<close> for a magnitude below \<open>10\<^sup>2\<^sup>1\<close>: one decimal, a tie going up.\<close>

definition toFixed1Sample :: "real \<Rightarrow> string" where
  "toFixed1Sample x =
     (let n = nat \<lfloor>\<bar>x\<bar> * 10 + 1 / 2\<rfloor>
      in (if x < 0 then ''-'' else []) @ natDigits (n div 10) @ ''.'' @ [digitChar n])"

definition sampleEnv :: Env where
  "sampleEnv =
    \<lparr>toFixed1 = toFixed1Sample,
     calculateBMR = (\<lambda>w h a g. 10 * w + 25 / 4 * h - 5 * a
        + (case g of masculino \<Rightarrow> 5 | feminino \<Rightarrow> - 161 | outro \<Rightarrow> - 78)),
     calculateTDEE = (\<lambda>bmr v. bmr
        * (case v of
             Level lvl \<Rightarrow>
               (case lvl of sedentario \<Rightarrow> 6 / 5 | leve \<Rightarrow> 11 / 8 | moderado \<Rightarrow> 31 / 20
                  | intenso \<Rightarrow> 69 / 40 | muito_intenso \<Rightarrow> 19 / 10)
           | Inherited k \<Rightarrow> 1)),
     calculateCalorieGoal = (\<lambda>tdee gl. tdee
        + (case gl of perder_peso \<Rightarrow> - 500 | manter_peso \<Rightarrow> 0 | ganhar_massa \<Rightarrow> 300)),
     calculateAdjustedWeight = (\<lambda>c t h.
        \<lparr>weightForCalc = (if c \<ge> 30 * ((h / 100) * (h / 100)) then t + (c - t) / 4 else c)\<rparr>),
     calculateProtein = (\<lambda>w gl clinical. w * (if clinical then 2 else 8 / 5)),
     calculateFat = (\<lambda>w. w * 4 / 5),
     calculateCarbs = (\<lambda>cal p f. \<lparr>carbGrams = (cal - 4 * p - 9 * f) / 4\<rparr>),
     detectPlateau = (\<lambda>h cal deficit.
        \<lparr>suggestion = (if length h \<ge> 5 then ''maintenance_week'' else ''reduce_calories''),
         plateauMessage = ''Plateau''\<rparr>)\<rparr>"

text \<open>An entry weighed on day \<open>d\<close> (midnight, counted from the epoch).\<close>

definition entryAt :: "int \<Rightarrow> real \<Rightarrow> WeightEntry" where
  "entryAt d w =
     \<lparr>entry_id = [], user_id = ''u1'', weight = w, date = d * msPerDay, created_at = []\<rparr>"

definition sampleGoal :: "GoalStatus \<Rightarrow> WeightGoal" where
  "sampleGoal st =
     \<lparr>startWeight = 90, targetWeight = 70, startDate = ''2024-01-01'', status = st\<rparr>"

definition sampleUser :: "real \<Rightarrow> WeightGoal option \<Rightarrow> User" where
  "sampleUser w g =
     \<lparr>userWeight = Some w, height = Some 170, age = Some 30, gender = Some feminino,
      activityLevel = Some ''ativo'', goal = Some ''perder_peso'',
      dailyCalorieGoal = 2000, isClinicalMode = False, weightGoal = g\<rparr>"

text \<open>Five weeks of a flat weight, the newest entry on day 100.\<close>

definition plateauHistory :: "WeightEntry list" where
  "plateauHistory =
     [entryAt 60 80, entryAt 70 80, entryAt 85 80, entryAt 95 80, entryAt 100 80]"

text \<open>Two entries older than four weeks, of different weights.\<close>

definition driftHistory :: "WeightEntry list" where
  "driftHistory = [entryAt 10 90, entryAt 50 80, entryAt 99 80, entryAt 100 80]"

text \<open>
  An entry dated midnight of day 72 and three recent ones. Read at 23:30 of day 99, the
  clock less 28 times 24 hours is half an hour before that entry; across a change to
  summer time the local calendar gives half an hour after it.
\<close>

definition summerTimeHistory :: "WeightEntry list" where
  "summerTimeHistory = [entryAt 72 80, entryAt 90 80, entryAt 95 80, entryAt 99 80]"

text \<open>A profile whose daily calorie goal is the double nearest to 1850.7.\<close>

definition fractionalGoalUser :: User where
  "fractionalGoalUser =
     (sampleUser 83 (Some (sampleGoal active)))\<lparr>dailyCalorieGoal := binary64 (18507 / 10)\<rparr>"

section \<open>The sort by date\<close>

lemma hd_insort_key:
  "hd (insort_key f x zs) = (if zs = [] \<or> f x \<le> f (hd zs) then x else hd zs)"
  by (cases zs) auto

lemma sort_key_Cons: "sort_key f (x # xs) = insort_key f x (sort_key f xs)"
  by (simp add: sort_key_def)

lemma sort_key_eq_Nil: "sort_key f xs = [] \<longleftrightarrow> xs = []"
  by (metis length_sort length_0_conv)

text \<open>
  The head of the sorted list has the least key and is, among the elements of that key,
  the first one of the input: equal keys keep their order.
\<close>

lemma hd_sort_key_first:
  "xs \<noteq> [] \<Longrightarrow>
     hd (sort_key f xs) \<in> set xs \<and> (\<forall>y \<in> set xs. f (hd (sort_key f xs)) \<le> f y)
       \<and> find (\<lambda>y. f y = f (hd (sort_key f xs))) xs = Some (hd (sort_key f xs))"
proof (induction xs)
  case Nil
  then show ?case by simp
next
  case (Cons x xs)
  show ?case
  proof (cases "xs = []")
    case True
    then show ?thesis by simp
  next
    case False
    with Cons.IH have ih:
      "hd (sort_key f xs) \<in> set xs" "\<forall>y \<in> set xs. f (hd (sort_key f xs)) \<le> f y"
      "find (\<lambda>y. f y = f (hd (sort_key f xs))) xs = Some (hd (sort_key f xs))"
      by auto
    from False have ne: "sort_key f xs \<noteq> []" by (simp add: sort_key_eq_Nil)
    show ?thesis
    proof (cases "f x \<le> f (hd (sort_key f xs))")
      case True
      then have "hd (sort_key f (x # xs)) = x"
        by (simp add: sort_key_Cons hd_insort_key)
      with True ih show ?thesis by auto
    next
      case False
      then have "hd (sort_key f (x # xs)) = hd (sort_key f xs)"
        using ne by (simp add: sort_key_Cons hd_insort_key)
      with False ih show ?thesis by auto
    qed
  qed
qed

lemma mostRecent_hd_sort:
  "h \<noteq> [] \<Longrightarrow> mostRecent h (hd (sortByDateDesc h))"
  using hd_sort_key_first [of h "\<lambda>e. - date e"]
  by (simp add: mostRecent_def sortByDateDesc_def)

lemma mostRecent_unique:
  "mostRecent h e \<Longrightarrow> mostRecent h e' \<Longrightarrow> e = e'"
proof -
  assume a: "mostRecent h e" and b: "mostRecent h e'"
  then have "date e = date e'"
    unfolding mostRecent_def by (meson order_antisym)
  moreover from a have "find (\<lambda>x. date x = date e) h = Some e"
    by (simp add: mostRecent_def)
  moreover from b have "find (\<lambda>x. date x = date e') h = Some e'"
    by (simp add: mostRecent_def)
  ultimately show ?thesis by (metis option.inject)
qed

lemma filter_sortByDateDesc:
  "filter (\<lambda>e. date e \<le> c) (sortByDateDesc h) = sortByDateDesc (onOrBefore c h)"
  by (simp add: sortByDateDesc_def onOrBefore_def filter_sort)

lemma sortByDateDesc_idem:
  "sortByDateDesc (sortByDateDesc h) = sortByDateDesc h"
  unfolding sortByDateDesc_def
  by (rule sort_key_id_if_sorted) simp

lemma last_insort_key:
  "sorted (map f zs) \<Longrightarrow>
     last (insort_key f x zs) = (if zs = [] \<or> f (last zs) < f x then x else last zs)"
proof (induction zs)
  case Nil
  then show ?case by simp
next
  case (Cons z zs)
  show ?case
  proof (cases "zs = []")
    case True
    then show ?thesis by auto
  next
    case False
    then have "last zs \<in> set zs" by simp
    with Cons.prems have zl: "f z \<le> f (last zs)" by simp
    from Cons.prems have srt: "sorted (map f zs)" by simp
    show ?thesis
    proof (cases "f x \<le> f z")
      case True
      with zl have "\<not> f (last zs) < f x"
        by (meson order_trans not_less)
      with True False show ?thesis by simp
    next
      case nle: False
      with False Cons.IH [OF srt] show ?thesis by simp
    qed
  qed
qed

lemma find_append_cases:
  "find P (xs @ ys) = (case find P xs of None \<Rightarrow> find P ys | Some x \<Rightarrow> Some x)"
  by (induction xs) auto

text \<open>
  Its last element has the greatest key and is, among the elements of that key, the last
  one of the input.
\<close>

lemma last_sort_key_last:
  "xs \<noteq> [] \<Longrightarrow>
     last (sort_key f xs) \<in> set xs \<and> (\<forall>y \<in> set xs. f y \<le> f (last (sort_key f xs)))
       \<and> find (\<lambda>y. f y = f (last (sort_key f xs))) (rev xs) = Some (last (sort_key f xs))"
proof (induction xs)
  case Nil
  then show ?case by simp
next
  case (Cons x xs)
  show ?case
  proof (cases "xs = []")
    case True
    then show ?thesis by simp
  next
    case False
    with Cons.IH have ih:
      "last (sort_key f xs) \<in> set xs" "\<forall>y \<in> set xs. f y \<le> f (last (sort_key f xs))"
      "find (\<lambda>y. f y = f (last (sort_key f xs))) (rev xs) = Some (last (sort_key f xs))"
      by auto
    from False have ne: "sort_key f xs \<noteq> []" by (simp add: sort_key_eq_Nil)
    have srt: "sorted (map f (sort_key f xs))" by simp
    show ?thesis
    proof (cases "f (last (sort_key f xs)) < f x")
      case True
      then have l: "last (sort_key f (x # xs)) = x"
        using srt by (simp add: sort_key_Cons last_insort_key)
      from True ih(2) have "\<forall>y \<in> set xs. f y \<noteq> f x" by auto
      then have "find (\<lambda>y. f y = f x) (rev xs) = None"
        by (simp add: find_None_iff)
      with True ih l show ?thesis by (auto simp: find_append_cases)
    next
      case False
      then have l: "last (sort_key f (x # xs)) = last (sort_key f xs)"
        using ne srt by (simp add: sort_key_Cons last_insort_key)
      with False ih show ?thesis by (auto simp: find_append_cases)
    qed
  qed
qed

lemma oldestOf_last_sort:
  "h \<noteq> [] \<Longrightarrow> oldestOf h (last (sortByDateDesc h))"
  using last_sort_key_last [of h "\<lambda>e. - date e"]
  by (simp add: oldestOf_def sortByDateDesc_def)

lemma oldestOf_unique:
  "oldestOf h e \<Longrightarrow> oldestOf h e' \<Longrightarrow> e = e'"
proof -
  assume a: "oldestOf h e" and b: "oldestOf h e'"
  then have "date e = date e'"
    unfolding oldestOf_def by (meson order_antisym)
  moreover from a have "find (\<lambda>x. date x = date e) (rev h) = Some e"
    by (simp add: oldestOf_def)
  moreover from b have "find (\<lambda>x. date x = date e') (rev h) = Some e'"
    by (simp add: oldestOf_def)
  ultimately show ?thesis by (metis option.inject)
qed

lemma sortByDateDesc_eq_Nil: "sortByDateDesc h = [] \<longleftrightarrow> h = []"
  by (simp add: sortByDateDesc_def sort_key_eq_Nil)

lemma length_sortByDateDesc: "length (sortByDateDesc h) = length h"
  by (simp add: sortByDateDesc_def)

lemma mostRecent_nonempty: "mostRecent h e \<Longrightarrow> h \<noteq> []"
  by (auto simp: mostRecent_def)

lemma mostRecent_eq_hd: "mostRecent h e \<Longrightarrow> hd (sortByDateDesc h) = e"
  using mostRecent_hd_sort mostRecent_unique mostRecent_nonempty by blast

lemma oldestOf_nonempty: "oldestOf h e \<Longrightarrow> h \<noteq> []"
  by (auto simp: oldestOf_def)

lemma oldestOf_eq_last: "oldestOf h e \<Longrightarrow> last (sortByDateDesc h) = e"
  using oldestOf_last_sort oldestOf_unique oldestOf_nonempty by blast


section \<open>Evaluating the rounding\<close>

lemma scaleExp_unfold:
  "scaleExp n x k =
     (if n = 0 then k
      else if 2 \<le> x then scaleExp (n - 1) (x / 2) (k + 1)
      else if x < 1 then scaleExp (n - 1) (x * 2) (k - 1)
      else k)"
  by (cases n) auto

lemmas fl_eval =
  binary64_def floorLog2_def scaleExp_unfold roundHalfEven_def pow2_def Let_def

lemma binary64_0: "binary64 0 = 0"
  by (simp add: binary64_def)

lemma scaleExp_ge1:
  "1 \<le> x \<Longrightarrow> x < 2 ^ n \<Longrightarrow>
     \<exists>j. j < n \<and> scaleExp n x k = k + int j \<and> 2 ^ j \<le> x \<and> x < 2 ^ Suc j"
proof (induction n arbitrary: x k)
  case 0
  then show ?case by simp
next
  case (Suc n)
  show ?case
  proof (cases "2 \<le> x")
    case True
    with Suc.prems have "1 \<le> x / 2" "x / 2 < 2 ^ n" by simp_all
    from Suc.IH [OF this, of "k + 1"] obtain j where
      j: "j < n" "scaleExp n (x / 2) (k + 1) = k + 1 + int j" "2 ^ j \<le> x / 2" "x / 2 < 2 ^ Suc j"
      by auto
    from j True show ?thesis
      by (intro exI [of _ "Suc j"]) simp
  next
    case False
    with Suc.prems show ?thesis
      by (intro exI [of _ 0]) simp
  qed
qed

lemma roundHalfEven_of_int: "roundHalfEven (of_int m) = m"
  by (simp add: roundHalfEven_def)

lemma pow2_neg_nat: "pow2 (- int d) = 1 / 2 ^ d"
  by (cases "d = 0") (simp_all add: pow2_def)

text \<open>An integer of magnitude below \<open>2\<^sup>5\<^sup>3\<close> is a double.\<close>

lemma binary64_of_int:
  assumes "\<bar>n\<bar> < 2 ^ 53"
  shows "binary64 (of_int n) = of_int n"
proof (cases "n = 0")
  case True
  then show ?thesis by (simp add: binary64_def)
next
  case False
  let ?x = "\<bar>of_int n :: real\<bar>"
  from False have "1 \<le> \<bar>n\<bar>" by simp
  then have "(1::real) \<le> of_int \<bar>n\<bar>" by (simp only: of_int_1_le_iff)
  then have x1: "1 \<le> ?x" by (simp only: of_int_abs)
  from assms have "(of_int \<bar>n\<bar> :: real) < of_int (2 ^ 53)" by (simp only: of_int_less_iff)
  then have x53: "?x < 2 ^ 53" by simp
  then have "?x < 2 ^ 2200"
    by (rule less_le_trans) simp
  from scaleExp_ge1 [OF x1 this, of 0] obtain j where
    j: "scaleExp 2200 ?x 0 = int j" "2 ^ j \<le> ?x" "?x < 2 ^ Suc j"
    by auto
  from j(2) x53 have "(2::real) ^ j < 2 ^ 53" by (rule le_less_trans)
  then have "j < 53" by (rule power_less_imp_less_exp [rotated]) simp
  then have j52: "j \<le> 52" by simp
  define d where "d = 52 - j"
  with j52 have d: "int j - 52 = - int d" "d \<le> 52" by simp_all
  then have e: "max (floorLog2 ?x - 52) (- 1074) = - int d"
    by (simp add: floorLog2_def j(1))
  have p: "pow2 (- int d) = 1 / 2 ^ d"
    by (rule pow2_neg_nat)
  have "of_int n / pow2 (- int d) = (of_int (n * 2 ^ d) :: real)"
    by (simp add: p)
  then have r: "roundHalfEven (of_int n / pow2 (- int d)) = n * 2 ^ d"
    by (simp only: roundHalfEven_of_int)
  from False show ?thesis
    unfolding binary64_def Let_def e r by (simp add: p)
qed

lemma binary64_int_sum:
  assumes "x = of_int n" and "\<bar>n + k\<bar> < 2 ^ 53"
  shows "binary64 (x + of_int k) = x + of_int k"
proof -
  have "x + of_int k = (of_int (n + k) :: real)"
    using assms(1) by simp
  with assms(2) show ?thesis
    by (simp only: binary64_of_int)
qed

lemma binary64_fifth: "binary64 (1 / 5) = 3602879701896397 / 2 ^ 54"
  by (simp add: fl_eval)

lemma binary64_fifth_ge: "1 / 5 \<le> binary64 (1 / 5)"
  by (simp add: binary64_fifth)

lemma binary64_small_ints:
  "binary64 (- 2) = - 2" "binary64 3 = 3" "binary64 10 = 10" "binary64 (- 10) = - 10"
  "binary64 2250 = 2250" "binary64 2300 = 2300"
  by (simp_all add: fl_eval)

section \<open>The decision tree of analyzeCalorieAdjustment\<close>

lemma snd_checkWeightVelocity:
  "snd (checkWeightVelocity env now h g) = sortByDateDesc h"
  by (cases "h = []") (simp_all add: checkWeightVelocity_def Let_def sortByDateDesc_def)

lemma shouldRecalculateCalories_sorted:
  "shouldRecalculateCalories env cutoff c l (sortByDateDesc h)
     = shouldRecalculateCalories env cutoff c l h"
  by (simp add: shouldRecalculateCalories_def Let_def sortByDateDesc_idem length_sortByDateDesc)

lemma includes_reasonPlateau: "includesStr reasonPlateau plato"
  by (simp add: reasonPlateau_def plato_def i_acute_def o_circ_def a_acute_def)

lemma analyze_inactive:
  assumes "weightGoal user = None \<or> (\<exists>g. weightGoal user = Some g \<and> status g \<noteq> active)"
  shows "analyzeCalorieAdjustment env now cutoff user h lcw =
           (\<lparr>shouldAdjust = False, reason = none,
             previousGoal = dailyCalorieGoal user, suggestedGoal = dailyCalorieGoal user,
             difference = 0, message = msgNoActiveGoal, severity = info\<rparr>, h)"
  using assms by (auto simp: analyzeCalorieAdjustment_def Let_def)

text \<open>
  With an active goal, the branches of the function in terms of the velocity alert and of
  the trigger on the history as given; the array comes back sorted.
\<close>

lemma analyze_active:
  assumes "weightGoal user = Some g" "status g = active"
  shows "analyzeCalorieAdjustment env now cutoff user h lcw =
   (let currentWeight = orNumber (userWeight user) 70;
        previousWeight = orNumber lcw currentWeight;
        velocityAlert = fst (checkWeightVelocity env now h g);
        h' = sortByDateDesc h;
        recalc = shouldRecalculateCalories env cutoff currentWeight previousWeight h;
        newCalorieGoal = calculateUserCalories env
                               (obesityAdjustedWeight env user g)
                               (orNumber (height user) 170)
                               (orNumber (age user) 30)
                               (case gender user of None \<Rightarrow> masculino | Some g \<Rightarrow> g)
                               (getUserActivityLevel user)
                               (getUserGoal user);
        maintenanceCalories = calculateUserCalories env
                         currentWeight
                         (orNumber (height user) 170)
                         (orNumber (age user) 30)
                         (case gender user of None \<Rightarrow> masculino | Some g \<Rightarrow> g)
                         (getUserActivityLevel user)
                         manter_peso;
        plateauAnalysis = detectPlateau env h' (dailyCalorieGoal user)
                             (mathRound (binary64 (dailyCalorieGoal user * binary64 0.2)))
    in if alertType velocityAlert = alert_goal_achieved then
         (\<lparr>shouldAdjust = True, reason = goal_achieved,
           previousGoal = dailyCalorieGoal user,
           suggestedGoal = maintenanceCalories,
           difference = binary64 (maintenanceCalories - dailyCalorieGoal user),
           message = msgMaintenance, severity = success\<rparr>, h')
       else if \<not> shouldRecalculate recalc then
         (if alertType velocityAlert = alert_fast_loss then
            (\<lparr>shouldAdjust = True, reason = fast_loss,
              previousGoal = dailyCalorieGoal user,
              suggestedGoal = binary64 (dailyCalorieGoal user + 250),
              difference = 250,
              message = orString (recommendation velocityAlert) ''Considere aumentar calorias'',
              severity = warning\<rparr>, h')
          else
            (\<lparr>shouldAdjust = False, reason = none,
              previousGoal = dailyCalorieGoal user,
              suggestedGoal = dailyCalorieGoal user,
              difference = 0, message = msgGoalsFine, severity = info\<rparr>, h'))
       else if includesStr (triggerReason recalc) plato then
         (if suggestion plateauAnalysis = ''maintenance_week'' then
            (\<lparr>shouldAdjust = True, reason = plateau_detected,
              previousGoal = dailyCalorieGoal user,
              suggestedGoal = binary64 (dailyCalorieGoal user + 300),
              difference = 300, message = msgDietBreak, severity = warning\<rparr>, h')
          else
            (\<lparr>shouldAdjust = True, reason = plateau_detected,
              previousGoal = dailyCalorieGoal user,
              suggestedGoal = binary64 (newCalorieGoal - 100),
              difference = binary64 (binary64 (newCalorieGoal - 100) - dailyCalorieGoal user),
              message = plateauMessage plateauAnalysis, severity = warning\<rparr>, h'))
       else
         (\<lparr>shouldAdjust = True, reason = weight_changed,
           previousGoal = dailyCalorieGoal user,
           suggestedGoal = newCalorieGoal,
           difference = binary64 (newCalorieGoal - dailyCalorieGoal user),
           message = triggerReason recalc @ ''. Novas metas calculadas.'',
           severity = info\<rparr>, h'))"
proof -
  obtain a h' where cv: "checkWeightVelocity env now h g = (a, h')"
    by (cases "checkWeightVelocity env now h g")
  then have h': "h' = sortByDateDesc h"
    using snd_checkWeightVelocity [of env now h g] by simp
  show ?thesis
    using assms cv
    by (simp add: analyzeCalorieAdjustment_def Let_def h' shouldRecalculateCalories_sorted
          obesityAdjustedWeight_def)
qed

lemmas sample_simps =
  sampleUser_def sampleGoal_def sampleEnv_def entryAt_def msPerDay_def
  orNumber_def sortByDateDesc_def Let_def binary64_0 binary64_small_ints

section \<open>Further facts used by the claims\<close>

lemma mostRecent_ex_iff:
  "(\<exists>e. mostRecent h e \<and> P e) \<longleftrightarrow> h \<noteq> [] \<and> P (hd (sortByDateDesc h))"
  using mostRecent_hd_sort mostRecent_eq_hd mostRecent_nonempty by metis

lemma set_sortByDateDesc: "set (sortByDateDesc h) = set h"
  by (simp add: sortByDateDesc_def)

text \<open>The prorated rate of a history that is shorter than a week.\<close>

lemma weekly_change_short_window:
  assumes "2 \<le> length h" and "\<forall>e \<in> set h. now - 7 * msPerDay < date e"
    and "mostRecent h latest" and "oldestOf h oldest"
  shows "calculateWeeklyChange now h
           = binary64 (binary64 (binary64 (weight latest - weight oldest)
               / max 1 (binary64 (real_of_int (date latest - date oldest) / real_of_int msPerDay)))
               * 7)"
proof -
  from assms(3) have hd: "hd (sortByDateDesc h) = latest" by (rule mostRecent_eq_hd)
  from assms(4) have lst: "last (sortByDateDesc h) = oldest" by (rule oldestOf_eq_last)
  from assms(1) have ne: "sortByDateDesc h \<noteq> []"
    by (auto simp: sortByDateDesc_eq_Nil)
  then have nth: "sortByDateDesc h ! (length (sortByDateDesc h) - 1) = oldest"
    using lst by (simp add: last_conv_nth)
  from assms(2) have "\<forall>e \<in> set (sortByDateDesc h). \<not> date e \<le> now - 7 * 24 * 60 * 60 * 1000"
    by (auto simp: set_sortByDateDesc msPerDay_def)
  then have flt: "filter (\<lambda>e. date e \<le> now - 7 * 24 * 60 * 60 * 1000) (sortByDateDesc h) = []"
    by (simp add: filter_empty_conv)
  from assms(1) have "\<not> length h < 2" by simp
  then show ?thesis
    using hd nth flt unfolding calculateWeeklyChange_def Let_def
    by (simp add: msPerDay_def)
qed

text \<open>The computation on the doubles 80 and 79.4, three days apart.\<close>

lemma prorated_example_value:
  "binary64 (binary64 (binary64 (binary64 (794 / 10) - 80) / 3) * 7)
     = - 3152519739159317 / 2 ^ 51"
  by (simp add: fl_eval)

lemma binary64_minus_14_tenths: "binary64 (- 14 / 10) = - 3152519739159347 / 2 ^ 51"
  by (simp add: fl_eval)

lemma recalculateMacros_cases:
  "recalculateMacrosForAdjustment env n user =
     macrosAt env n user
       (case weightGoal user of
          None \<Rightarrow> orNumber (userWeight user) 70
        | Some g \<Rightarrow> obesityAdjustedWeight env user g)"
  by (simp add: recalculateMacrosForAdjustment_def macrosAt_def obesityAdjustedWeight_def
        Let_def split: option.split)

lemma toFixed1Sample_10: "toFixed1Sample 10 = ''10.0''"
  by (simp add: toFixed1Sample_def digitChar_def)

lemma drift_reason:
  "shouldRecalculateCalories sampleEnv c 110 100 [entryAt 3 110, entryAt 10 110]
     = \<lparr>shouldRecalculate = True, triggerReason = reasonWeightChanged sampleEnv 10\<rparr>"
  by (simp add: shouldRecalculateCalories_def binary64_small_ints)

lemma drift_reason_no_plato:
  "\<not> includesStr (reasonWeightChanged sampleEnv 10) plato"
  by (simp add: reasonWeightChanged_def sampleEnv_def toFixed1Sample_10 plato_def
        u_acute_def a_acute_def o_circ_def)

text \<open>The sum and the difference that the fast-loss branch leaves for a goal of 1850.7.\<close>

lemma fractional_goal_sum:
  "binary64 (binary64 (18507 / 10) + 250) = 2309744076469043 / 2 ^ 40"
  by (simp add: fl_eval)

lemma fractional_goal_value: "binary64 (18507 / 10) = 8139464678100173 / 2 ^ 42"
  by (simp add: fl_eval)

lemma fractional_goal_back:
  "binary64 (2309744076469043 / 2 ^ 40 - 8139464678100173 / 2 ^ 42)
     = 1099511627775999 / 2 ^ 42"
  by (simp add: fl_eval)

section \<open>Claims\<close>

text \<open>
  C1, as stated, fails: the entry that the trigger compares with is not the earliest
  entry dated at or before four weeks ago. In the history below the earliest such entry
  weighs 90, 10 kg away from the current 80, and the trigger fires all the same, on the
  entry of day 50.
\<close>

theorem should_recalculate_earliest_counterexample:
  "\<bar>binary64 (80 - 80)\<bar> < 2
   \<and> 4 \<le> length driftHistory
   \<and> oldestOf (onOrBefore (72 * msPerDay) driftHistory) (entryAt 10 90)
   \<and> \<not> \<bar>binary64 (80 - weight (entryAt 10 90))\<bar> < 0.5
   \<and> shouldRecalculateCalories sampleEnv (72 * msPerDay) 80 80 driftHistory
       = \<lparr>shouldRecalculate = True, triggerReason = reasonPlateau\<rparr>"
  by (simp add: shouldRecalculateCalories_def oldestOf_def onOrBefore_def driftHistory_def
        sample_simps)

text \<open>
  C1, amended. Differences are the rounded ones that the code computes, and the cutoff is
  the timestamp that the code computes by moving the clock back 28 days of the local
  calendar. When the current weight is less than 2 kg away from the last calculated
  weight, the trigger fires exactly when the history has at least 4 entries, some entry
  is dated at or before the cutoff, and the current weight is less than 0.5 kg away from
  the most recent of those entries (the first one in input order when several share that
  date). When it fires the reason is the plateau text, which contains the word tested by
  the analysis; when any of the three conditions is absent the answer is no trigger with
  an empty reason.
\<close>

theorem should_recalculate_plateau:
  assumes "\<bar>binary64 (c - l)\<bar> < 2"
  shows "(shouldRecalculate (shouldRecalculateCalories env cutoff c l h) \<longleftrightarrow>
            4 \<le> length h
            \<and> (\<exists>e. mostRecent (onOrBefore cutoff h) e \<and> \<bar>binary64 (c - weight e)\<bar> < 0.5))
       \<and> triggerReason (shouldRecalculateCalories env cutoff c l h)
           = (if shouldRecalculate (shouldRecalculateCalories env cutoff c l h)
              then reasonPlateau else [])
       \<and> includesStr reasonPlateau plato"
proof -
  have len: "0 < length (sortByDateDesc (onOrBefore cutoff h))
              \<longleftrightarrow> onOrBefore cutoff h \<noteq> []"
    by (simp add: sortByDateDesc_eq_Nil)
  from assms show ?thesis
    unfolding shouldRecalculateCalories_def Let_def filter_sortByDateDesc
      mostRecent_ex_iff len
    by (simp add: includes_reasonPlateau)
qed

theorem should_recalculate_plateau_witness:
  "\<bar>binary64 (80 - 80)\<bar> < 2
   \<and> mostRecent (onOrBefore (72 * msPerDay) driftHistory) (entryAt 50 80)
   \<and> shouldRecalculateCalories sampleEnv (72 * msPerDay) 80 80 driftHistory
       = \<lparr>shouldRecalculate = True, triggerReason = reasonPlateau\<rparr>
   \<and> shouldRecalculateCalories sampleEnv (72 * msPerDay) 80 80 (tl driftHistory)
       = \<lparr>shouldRecalculate = False, triggerReason = []\<rparr>
   \<and> shouldRecalculate (shouldRecalculateCalories sampleEnv (72 * msPerDay + 1800000) 80 80
         summerTimeHistory)
   \<and> \<not> shouldRecalculate (shouldRecalculateCalories sampleEnv (72 * msPerDay - 1800000) 80 80
         summerTimeHistory)"
proof -
  have m: "mostRecent (onOrBefore (72 * msPerDay) driftHistory) (entryAt 50 80)"
    by (simp add: mostRecent_def onOrBefore_def driftHistory_def entryAt_def msPerDay_def)
  have l: "4 \<le> length driftHistory" "\<not> 4 \<le> length (tl driftHistory)"
    by (simp_all add: driftHistory_def)
  have w: "\<bar>binary64 (80 - weight (entryAt 50 80))\<bar> < 0.5"
    by (simp add: entryAt_def binary64_0)
  have a: "\<bar>binary64 (80 - 80)\<bar> < 2" by (simp add: binary64_0)
  have "shouldRecalculate (shouldRecalculateCalories sampleEnv (72 * msPerDay) 80 80 driftHistory)"
    "triggerReason (shouldRecalculateCalories sampleEnv (72 * msPerDay) 80 80 driftHistory)
       = reasonPlateau"
    using should_recalculate_plateau [OF a, of sampleEnv "72 * msPerDay" driftHistory] m l w
    by auto
  moreover have
    "\<not> shouldRecalculate (shouldRecalculateCalories sampleEnv (72 * msPerDay) 80 80 (tl driftHistory))"
    "triggerReason (shouldRecalculateCalories sampleEnv (72 * msPerDay) 80 80 (tl driftHistory)) = []"
    using should_recalculate_plateau [OF a, of sampleEnv "72 * msPerDay" "tl driftHistory"] l
    by auto
  moreover have
    "shouldRecalculate (shouldRecalculateCalories sampleEnv (72 * msPerDay + 1800000) 80 80
         summerTimeHistory)"
  proof -
    have "mostRecent (onOrBefore (72 * msPerDay + 1800000) summerTimeHistory) (entryAt 72 80)"
      by (simp add: mostRecent_def onOrBefore_def summerTimeHistory_def entryAt_def msPerDay_def)
    moreover have "\<bar>binary64 (80 - weight (entryAt 72 80))\<bar> < 0.5"
      by (simp add: entryAt_def binary64_0)
    moreover have "4 \<le> length summerTimeHistory"
      by (simp add: summerTimeHistory_def)
    ultimately show ?thesis
      using should_recalculate_plateau [OF a, of sampleEnv "72 * msPerDay + 1800000"
          summerTimeHistory]
      by auto
  qed
  moreover have
    "\<not> shouldRecalculate (shouldRecalculateCalories sampleEnv (72 * msPerDay - 1800000) 80 80
         summerTimeHistory)"
  proof -
    have "onOrBefore (72 * msPerDay - 1800000) summerTimeHistory = []"
      by (simp add: onOrBefore_def summerTimeHistory_def entryAt_def msPerDay_def)
    then have "\<not> (\<exists>e. mostRecent (onOrBefore (72 * msPerDay - 1800000) summerTimeHistory) e
                   \<and> \<bar>binary64 (80 - weight e)\<bar> < 0.5)"
      by (simp add: mostRecent_def)
    then show ?thesis
      using should_recalculate_plateau [OF a, of sampleEnv "72 * msPerDay - 1800000"
          summerTimeHistory]
      by blast
  qed
  ultimately show ?thesis using m a by (auto intro: Recalculation.equality)
qed

text \<open>
  C2, as stated, fails for a profile whose weight goal is not active: the macro
  recalculation looks only at the presence of a goal, and takes the adjusted weight
  (here 80 kg, protein 128 g) where the claim has the raw weight (110 kg, protein 176 g).
\<close>

theorem recompute_macros_inactive_goal_counterexample:
  "weightGoal (sampleUser 110 (Some (sampleGoal abandoned))) = Some (sampleGoal abandoned)
   \<and> status (sampleGoal abandoned) \<noteq> active
   \<and> protein (recalculateMacrosForAdjustment sampleEnv 1800
        (sampleUser 110 (Some (sampleGoal abandoned)))) = 128
   \<and> protein (macrosAt sampleEnv 1800 (sampleUser 110 (Some (sampleGoal abandoned)))
        (orNumber (userWeight (sampleUser 110 (Some (sampleGoal abandoned)))) 70)) = 176"
  by (simp add: recalculateMacrosForAdjustment_def macrosAt_def getUserGoal_def validGoals_def
        sample_simps)

text \<open>
  C2, amended. The macro recalculation applies the protein and fat formulas to the raw
  profile weight when the profile has no weight goal, and to the obesity-adjusted weight
  (of the current weight, the goal's target weight and the height) when the profile has
  a weight goal, whatever its status. That adjusted weight is the one from which the
  analysis, for the same profile with the goal active, computes its new calorie goal:
  the suggested goal is that new calorie goal in the weight-changed branch, and 100 below
  it in the plateau branch without a maintenance week.
\<close>

theorem recompute_macros_weight:
  "(weightGoal user = None \<longrightarrow>
      recalculateMacrosForAdjustment env n user
        = macrosAt env n user (orNumber (userWeight user) 70))
   \<and> (weightGoal user = Some g \<longrightarrow>
      recalculateMacrosForAdjustment env n user
        = macrosAt env n user (obesityAdjustedWeight env user g))
   \<and> (weightGoal user = Some g \<and> status g = active
        \<and> alertType (fst (checkWeightVelocity env now h g)) \<noteq> alert_goal_achieved
        \<and> shouldRecalculate (shouldRecalculateCalories env cutoff
              (orNumber (userWeight user) 70)
              (orNumber lcw (orNumber (userWeight user) 70)) h)
        \<and> \<not> (includesStr (triggerReason (shouldRecalculateCalories env cutoff
                   (orNumber (userWeight user) 70)
                   (orNumber lcw (orNumber (userWeight user) 70)) h)) plato
              \<and> suggestion (detectPlateau env (sortByDateDesc h) (dailyCalorieGoal user)
                   (mathRound (binary64 (dailyCalorieGoal user * binary64 0.2))))
                  = ''maintenance_week'')
      \<longrightarrow>
      suggestedGoal (fst (analyzeCalorieAdjustment env now cutoff user h lcw))
        = (if includesStr (triggerReason (shouldRecalculateCalories env cutoff
                   (orNumber (userWeight user) 70)
                   (orNumber lcw (orNumber (userWeight user) 70)) h)) plato
           then binary64 (calculateUserCalories env
                  (obesityAdjustedWeight env user g)
                  (orNumber (height user) 170)
                  (orNumber (age user) 30)
                  (case gender user of None \<Rightarrow> masculino | Some x \<Rightarrow> x)
                  (getUserActivityLevel user)
                  (getUserGoal user) - 100)
           else calculateUserCalories env
                  (obesityAdjustedWeight env user g)
                  (orNumber (height user) 170)
                  (orNumber (age user) 30)
                  (case gender user of None \<Rightarrow> masculino | Some x \<Rightarrow> x)
                  (getUserActivityLevel user)
                  (getUserGoal user)))"
proof (intro conjI impI)
  assume "weightGoal user = None"
  then show "recalculateMacrosForAdjustment env n user
        = macrosAt env n user (orNumber (userWeight user) 70)"
    by (simp add: recalculateMacros_cases)
next
  assume "weightGoal user = Some g"
  then show "recalculateMacrosForAdjustment env n user
        = macrosAt env n user (obesityAdjustedWeight env user g)"
    by (simp add: recalculateMacros_cases)
next
  assume a: "weightGoal user = Some g \<and> status g = active
        \<and> alertType (fst (checkWeightVelocity env now h g)) \<noteq> alert_goal_achieved
        \<and> shouldRecalculate (shouldRecalculateCalories env cutoff
              (orNumber (userWeight user) 70)
              (orNumber lcw (orNumber (userWeight user) 70)) h)
        \<and> \<not> (includesStr (triggerReason (shouldRecalculateCalories env cutoff
                   (orNumber (userWeight user) 70)
                   (orNumber lcw (orNumber (userWeight user) 70)) h)) plato
              \<and> suggestion (detectPlateau env (sortByDateDesc h) (dailyCalorieGoal user)
                   (mathRound (binary64 (dailyCalorieGoal user * binary64 0.2))))
                  = ''maintenance_week'')"
  then have g: "weightGoal user = Some g" "status g = active" by simp_all
  from a show "suggestedGoal (fst (analyzeCalorieAdjustment env now cutoff user h lcw))
        = (if includesStr (triggerReason (shouldRecalculateCalories env cutoff
                   (orNumber (userWeight user) 70)
                   (orNumber lcw (orNumber (userWeight user) 70)) h)) plato
           then binary64 (calculateUserCalories env
                  (obesityAdjustedWeight env user g)
                  (orNumber (height user) 170)
                  (orNumber (age user) 30)
                  (case gender user of None \<Rightarrow> masculino | Some x \<Rightarrow> x)
                  (getUserActivityLevel user)
                  (getUserGoal user) - 100)
           else calculateUserCalories env
                  (obesityAdjustedWeight env user g)
                  (orNumber (height user) 170)
                  (orNumber (age user) 30)
                  (case gender user of None \<Rightarrow> masculino | Some x \<Rightarrow> x)
                  (getUserActivityLevel user)
                  (getUserGoal user))"
    by (auto simp: analyze_active [OF g] Let_def)
qed

theorem recompute_macros_weight_witness:
  "weightGoal (sampleUser 110 (Some (sampleGoal active))) = Some (sampleGoal active)
   \<and> status (sampleGoal active) = active
   \<and> obesityAdjustedWeight sampleEnv (sampleUser 110 (Some (sampleGoal active)))
        (sampleGoal active) = 80
   \<and> recalculateMacrosForAdjustment sampleEnv 1800 (sampleUser 110 (Some (sampleGoal active)))
        = macrosAt sampleEnv 1800 (sampleUser 110 (Some (sampleGoal active))) 80
   \<and> suggestedGoal (fst (analyzeCalorieAdjustment sampleEnv (10 * msPerDay) (- 18 * msPerDay)
        (sampleUser 110 (Some (sampleGoal active))) [entryAt 3 110, entryAt 10 110] (Some 100)))
        = calculateUserCalories sampleEnv 80 170 30 feminino (Level intenso) perder_peso"
proof -
  have u: "weightGoal (sampleUser 110 (Some (sampleGoal active))) = Some (sampleGoal active)"
    "status (sampleGoal active) = active"
    "orNumber (userWeight (sampleUser 110 (Some (sampleGoal active)))) 70 = 110"
    "orNumber (Some 100) (110::real) = 100"
    "orNumber (height (sampleUser 110 (Some (sampleGoal active)))) 170 = 170"
    "orNumber (age (sampleUser 110 (Some (sampleGoal active)))) 30 = 30"
    "gender (sampleUser 110 (Some (sampleGoal active))) = Some feminino"
    "getUserActivityLevel (sampleUser 110 (Some (sampleGoal active))) = Level intenso"
    "getUserGoal (sampleUser 110 (Some (sampleGoal active))) = perder_peso"
    by (simp_all add: sampleUser_def sampleGoal_def orNumber_def getUserActivityLevel_def
          activityMap_def getUserGoal_def validGoals_def)
  have w: "obesityAdjustedWeight sampleEnv (sampleUser 110 (Some (sampleGoal active)))
        (sampleGoal active) = 80"
    by (simp add: obesityAdjustedWeight_def sampleEnv_def sampleUser_def sampleGoal_def
          orNumber_def)
  have a: "alertType (fst (checkWeightVelocity sampleEnv (10 * msPerDay)
       [entryAt 3 110, entryAt 10 110] (sampleGoal active))) \<noteq> alert_goal_achieved"
    by (simp add: checkWeightVelocity_def calculateWeeklyChange_def sample_simps)
  from recompute_macros_weight [of "sampleUser 110 (Some (sampleGoal active))" sampleEnv 1800
        "sampleGoal active" "10 * msPerDay" "[entryAt 3 110, entryAt 10 110]"
        "- 18 * msPerDay" "Some 100"]
       u w a drift_reason [of "- 18 * msPerDay"] drift_reason_no_plato
  show ?thesis by simp
qed

text \<open>
  C3. The analysis is to leave the history it was given unchanged, its order included.
  With an active goal it does not: the velocity check sorts the caller's array in place,
  newest first. Run on a history in ascending order, the array comes back reversed.
\<close>

theorem analyze_reorders_history:
  "snd (analyzeCalorieAdjustment sampleEnv (10 * msPerDay) (- 18 * msPerDay)
          (sampleUser 83 (Some (sampleGoal active))) [entryAt 3 85, entryAt 10 83] None)
     = [entryAt 10 83, entryAt 3 85]
   \<and> [entryAt 10 83, entryAt 3 85] \<noteq> [entryAt 3 85, entryAt 10 83]"
proof -
  have u: "weightGoal (sampleUser 83 (Some (sampleGoal active))) = Some (sampleGoal active)"
    "status (sampleGoal active) = active"
    by (simp_all add: sampleUser_def sampleGoal_def)
  have s: "sortByDateDesc [entryAt 3 85, entryAt 10 83] = [entryAt 10 83, entryAt 3 85]"
    by (simp add: sortByDateDesc_def entryAt_def msPerDay_def)
  have "snd (analyzeCalorieAdjustment sampleEnv (10 * msPerDay) (- 18 * msPerDay)
          (sampleUser 83 (Some (sampleGoal active))) [entryAt 3 85, entryAt 10 83] None)
     = sortByDateDesc [entryAt 3 85, entryAt 10 83]"
    by (simp add: analyze_active [OF u] Let_def)
  with s show ?thesis by (simp add: entryAt_def)
qed

text \<open>
  C4. With an active goal that is not yet achieved, when the trigger fires with a reason
  that contains the plateau word and the plateau detector suggests a maintenance week,
  the analysis answers: adjust, reason plateau detected, the previous goal plus 300 (the
  sum as the code computes it), a difference of 300, severity warning. The new calorie
  goal computed just before plays no part in the answer.
\<close>

theorem analyze_maintenance_week:
  assumes "weightGoal user = Some g" and "status g = active"
    and "alertType (fst (checkWeightVelocity env now h g)) \<noteq> alert_goal_achieved"
    and "shouldRecalculate (shouldRecalculateCalories env cutoff
            (orNumber (userWeight user) 70)
            (orNumber lcw (orNumber (userWeight user) 70)) h)"
    and "includesStr (triggerReason (shouldRecalculateCalories env cutoff
            (orNumber (userWeight user) 70)
            (orNumber lcw (orNumber (userWeight user) 70)) h)) plato"
    and "suggestion (detectPlateau env (sortByDateDesc h) (dailyCalorieGoal user)
            (mathRound (binary64 (dailyCalorieGoal user * binary64 0.2)))) = ''maintenance_week''"
  shows "shouldAdjust (fst (analyzeCalorieAdjustment env now cutoff user h lcw))
       \<and> reason (fst (analyzeCalorieAdjustment env now cutoff user h lcw)) = plateau_detected
       \<and> previousGoal (fst (analyzeCalorieAdjustment env now cutoff user h lcw))
           = dailyCalorieGoal user
       \<and> suggestedGoal (fst (analyzeCalorieAdjustment env now cutoff user h lcw))
           = binary64 (dailyCalorieGoal user + 300)
       \<and> (\<forall>n. dailyCalorieGoal user = of_int n \<and> \<bar>n + 300\<bar> < 2 ^ 53 \<longrightarrow>
            suggestedGoal (fst (analyzeCalorieAdjustment env now cutoff user h lcw))
              = dailyCalorieGoal user + 300)
       \<and> difference (fst (analyzeCalorieAdjustment env now cutoff user h lcw)) = 300
       \<and> severity (fst (analyzeCalorieAdjustment env now cutoff user h lcw)) = warning"
proof -
  have r: "fst (analyzeCalorieAdjustment env now cutoff user h lcw)
        = \<lparr>shouldAdjust = True, reason = plateau_detected,
           previousGoal = dailyCalorieGoal user,
           suggestedGoal = binary64 (dailyCalorieGoal user + 300),
           difference = 300, message = msgDietBreak, severity = warning\<rparr>"
    using assms(3,4,5,6) by (simp add: analyze_active [OF assms(1,2)] Let_def)
  have i: "binary64 (dailyCalorieGoal user + 300) = dailyCalorieGoal user + 300"
    if "dailyCalorieGoal user = of_int n \<and> \<bar>n + 300\<bar> < 2 ^ 53" for n
    using binary64_int_sum [of "dailyCalorieGoal user" n 300] that by simp
  show ?thesis
    unfolding r using i by auto
qed

theorem analyze_maintenance_week_witness:
  "alertType (fst (checkWeightVelocity sampleEnv (100 * msPerDay) plateauHistory
       (sampleGoal active))) \<noteq> alert_goal_achieved
   \<and> shouldRecalculateCalories sampleEnv (72 * msPerDay) 80 80 plateauHistory
        = \<lparr>shouldRecalculate = True, triggerReason = reasonPlateau\<rparr>
   \<and> suggestion (detectPlateau sampleEnv (sortByDateDesc plateauHistory) 2000
        (mathRound (binary64 (2000 * binary64 0.2)))) = ''maintenance_week''
   \<and> reason (fst (analyzeCalorieAdjustment sampleEnv (100 * msPerDay) (72 * msPerDay)
         (sampleUser 80 (Some (sampleGoal active))) plateauHistory None)) = plateau_detected
   \<and> suggestedGoal (fst (analyzeCalorieAdjustment sampleEnv (100 * msPerDay) (72 * msPerDay)
         (sampleUser 80 (Some (sampleGoal active))) plateauHistory None)) = 2300"
proof -
  have u: "weightGoal (sampleUser 80 (Some (sampleGoal active))) = Some (sampleGoal active)"
    "status (sampleGoal active) = active"
    "orNumber (userWeight (sampleUser 80 (Some (sampleGoal active)))) 70 = 80"
    "orNumber None (80 :: real) = 80"
    "dailyCalorieGoal (sampleUser 80 (Some (sampleGoal active))) = 2000"
    by (simp_all add: sampleUser_def sampleGoal_def orNumber_def)
  have a: "alertType (fst (checkWeightVelocity sampleEnv (100 * msPerDay) plateauHistory
       (sampleGoal active))) \<noteq> alert_goal_achieved"
    by (simp add: checkWeightVelocity_def calculateWeeklyChange_def plateauHistory_def sample_simps)
  have r: "shouldRecalculateCalories sampleEnv (72 * msPerDay) 80 80 plateauHistory
        = \<lparr>shouldRecalculate = True, triggerReason = reasonPlateau\<rparr>"
    by (simp add: shouldRecalculateCalories_def plateauHistory_def sample_simps)
  have s: "suggestion (detectPlateau sampleEnv (sortByDateDesc plateauHistory) 2000
        (mathRound (binary64 (2000 * binary64 0.2)))) = ''maintenance_week''"
    by (simp add: sampleEnv_def length_sortByDateDesc plateauHistory_def)
  from analyze_maintenance_week [of "sampleUser 80 (Some (sampleGoal active))"
        "sampleGoal active" sampleEnv "100 * msPerDay" plateauHistory "72 * msPerDay" None]
    u a r s includes_reasonPlateau
  show ?thesis by (simp add: binary64_small_ints)
qed

text \<open>
  C5. A profile with no weight goal, or with a weight goal that is not active: whatever
  the history and the last calculated weight, the analysis answers no adjustment, reason
  none, severity info, the suggested goal equal to the previous goal (the profile's daily
  calorie goal) and a difference of 0.
\<close>

theorem analyze_no_active_goal:
  assumes "weightGoal user = None \<or> (\<exists>g. weightGoal user = Some g \<and> status g \<noteq> active)"
  shows "shouldAdjust (fst (analyzeCalorieAdjustment env now cutoff user h lcw)) = False
       \<and> reason (fst (analyzeCalorieAdjustment env now cutoff user h lcw)) = none
       \<and> severity (fst (analyzeCalorieAdjustment env now cutoff user h lcw)) = info
       \<and> previousGoal (fst (analyzeCalorieAdjustment env now cutoff user h lcw))
           = dailyCalorieGoal user
       \<and> suggestedGoal (fst (analyzeCalorieAdjustment env now cutoff user h lcw))
           = dailyCalorieGoal user
       \<and> difference (fst (analyzeCalorieAdjustment env now cutoff user h lcw)) = 0"
  using analyze_inactive [OF assms, of env now cutoff h lcw] by simp

theorem analyze_no_active_goal_witness:
  "status (sampleGoal abandoned) \<noteq> active
   \<and> shouldAdjust (fst (analyzeCalorieAdjustment sampleEnv (100 * msPerDay) (72 * msPerDay)
         (sampleUser 80 (Some (sampleGoal abandoned)))
         [entryAt 60 80, entryAt 70 80, entryAt 85 80, entryAt 95 80, entryAt 100 80] None)) = False
   \<and> reason (fst (analyzeCalorieAdjustment sampleEnv (100 * msPerDay) (72 * msPerDay)
         (sampleUser 80 (Some (sampleGoal abandoned)))
         [entryAt 60 80, entryAt 70 80, entryAt 85 80, entryAt 95 80, entryAt 100 80] None)) = none
   \<and> suggestedGoal (fst (analyzeCalorieAdjustment sampleEnv (100 * msPerDay) (72 * msPerDay)
         (sampleUser 80 (Some (sampleGoal abandoned)))
         [entryAt 60 80, entryAt 70 80, entryAt 85 80, entryAt 95 80, entryAt 100 80] None)) = 2000"
  using analyze_no_active_goal [of "sampleUser 80 (Some (sampleGoal abandoned))" sampleEnv
      "100 * msPerDay" "72 * msPerDay"
      "[entryAt 60 80, entryAt 70 80, entryAt 85 80, entryAt 95 80, entryAt 100 80]" None]
  by (simp add: sampleUser_def sampleGoal_def)

text \<open>
  C6. With an active goal that is not yet achieved, when the trigger does not fire: a
  fast-loss alert gives an adjustment of reason fast loss, the previous goal plus 250 (the
  sum as the code computes it), a difference of 250 and severity warning; any other alert
  gives no adjustment, reason none, severity info.
\<close>

theorem analyze_not_triggered:
  assumes "weightGoal user = Some g" and "status g = active"
    and "alertType (fst (checkWeightVelocity env now h g)) \<noteq> alert_goal_achieved"
    and "\<not> shouldRecalculate (shouldRecalculateCalories env cutoff
            (orNumber (userWeight user) 70)
            (orNumber lcw (orNumber (userWeight user) 70)) h)"
  shows "previousGoal (fst (analyzeCalorieAdjustment env now cutoff user h lcw))
           = dailyCalorieGoal user
       \<and> (alertType (fst (checkWeightVelocity env now h g)) = alert_fast_loss \<longrightarrow>
            shouldAdjust (fst (analyzeCalorieAdjustment env now cutoff user h lcw))
          \<and> reason (fst (analyzeCalorieAdjustment env now cutoff user h lcw)) = fast_loss
          \<and> suggestedGoal (fst (analyzeCalorieAdjustment env now cutoff user h lcw))
              = binary64 (dailyCalorieGoal user + 250)
          \<and> (\<forall>n. dailyCalorieGoal user = of_int n \<and> \<bar>n + 250\<bar> < 2 ^ 53 \<longrightarrow>
               suggestedGoal (fst (analyzeCalorieAdjustment env now cutoff user h lcw))
                 = dailyCalorieGoal user + 250)
          \<and> difference (fst (analyzeCalorieAdjustment env now cutoff user h lcw)) = 250
          \<and> severity (fst (analyzeCalorieAdjustment env now cutoff user h lcw)) = warning)
       \<and> (alertType (fst (checkWeightVelocity env now h g)) \<noteq> alert_fast_loss \<longrightarrow>
            \<not> shouldAdjust (fst (analyzeCalorieAdjustment env now cutoff user h lcw))
          \<and> reason (fst (analyzeCalorieAdjustment env now cutoff user h lcw)) = none
          \<and> severity (fst (analyzeCalorieAdjustment env now cutoff user h lcw)) = info)"
proof -
  have i: "binary64 (dailyCalorieGoal user + 250) = dailyCalorieGoal user + 250"
    if "dailyCalorieGoal user = of_int n \<and> \<bar>n + 250\<bar> < 2 ^ 53" for n
    using binary64_int_sum [of "dailyCalorieGoal user" n 250] that by simp
  show ?thesis
  proof (cases "alertType (fst (checkWeightVelocity env now h g)) = alert_fast_loss")
    case True
    with assms(3,4) have r: "fst (analyzeCalorieAdjustment env now cutoff user h lcw)
        = \<lparr>shouldAdjust = True, reason = fast_loss,
           previousGoal = dailyCalorieGoal user,
           suggestedGoal = binary64 (dailyCalorieGoal user + 250),
           difference = 250,
           message = orString (recommendation (fst (checkWeightVelocity env now h g)))
                       ''Considere aumentar calorias'',
           severity = warning\<rparr>"
      by (simp add: analyze_active [OF assms(1,2)] Let_def)
    show ?thesis
      unfolding r using True i by auto
  next
    case False
    with assms(3,4) show ?thesis
      by (simp add: analyze_active [OF assms(1,2)] Let_def)
  qed
qed

theorem analyze_not_triggered_witness:
  "alertType (fst (checkWeightVelocity sampleEnv (10 * msPerDay)
       [entryAt 3 85, entryAt 10 83] (sampleGoal active))) = alert_fast_loss
   \<and> \<not> shouldRecalculate (shouldRecalculateCalories sampleEnv (- 18 * msPerDay) 83 83
       [entryAt 3 85, entryAt 10 83])
   \<and> reason (fst (analyzeCalorieAdjustment sampleEnv (10 * msPerDay) (- 18 * msPerDay)
         (sampleUser 83 (Some (sampleGoal active))) [entryAt 3 85, entryAt 10 83] None)) = fast_loss
   \<and> suggestedGoal (fst (analyzeCalorieAdjustment sampleEnv (10 * msPerDay) (- 18 * msPerDay)
         (sampleUser 83 (Some (sampleGoal active))) [entryAt 3 85, entryAt 10 83] None)) = 2250"
proof -
  have u: "weightGoal (sampleUser 83 (Some (sampleGoal active))) = Some (sampleGoal active)"
    "status (sampleGoal active) = active"
    "orNumber (userWeight (sampleUser 83 (Some (sampleGoal active)))) 70 = 83"
    "orNumber None (83::real) = 83"
    "dailyCalorieGoal (sampleUser 83 (Some (sampleGoal active))) = 2000"
    by (simp_all add: sampleUser_def sampleGoal_def orNumber_def)
  have a: "alertType (fst (checkWeightVelocity sampleEnv (10 * msPerDay)
       [entryAt 3 85, entryAt 10 83] (sampleGoal active))) = alert_fast_loss"
    by (simp add: checkWeightVelocity_def calculateWeeklyChange_def sample_simps)
  have r: "\<not> shouldRecalculate (shouldRecalculateCalories sampleEnv (- 18 * msPerDay) 83 83
       [entryAt 3 85, entryAt 10 83])"
    by (simp add: shouldRecalculateCalories_def sample_simps)
  from analyze_not_triggered [of "sampleUser 83 (Some (sampleGoal active))" "sampleGoal active"
        sampleEnv "10 * msPerDay" "[entryAt 3 85, entryAt 10 83]" "- 18 * msPerDay" None] u a r
  show ?thesis by (simp add: binary64_small_ints)
qed

text \<open>
  C7. For a history that is not empty, a single entry included: when the goal is a
  losing one and the most recent entry weighs no more than the target, or the goal is
  not a losing one and the most recent entry weighs no less than the target, the
  velocity check answers goal achieved, whatever the weekly change.
\<close>

theorem classify_goal_achieved:
  assumes "mostRecent h e"
    and "(startWeight g > targetWeight g \<and> weight e \<le> targetWeight g)
         \<or> (\<not> startWeight g > targetWeight g \<and> weight e \<ge> targetWeight g)"
  shows "alertType (fst (checkWeightVelocity env now h g)) = alert_goal_achieved"
proof -
  from assms(1) have ne: "h \<noteq> []" by (rule mostRecent_nonempty)
  from assms(1) have hd: "hd (sortByDateDesc h) = e" by (rule mostRecent_eq_hd)
  from ne hd assms(2) show ?thesis
    by (auto simp: checkWeightVelocity_def Let_def)
qed

theorem classify_goal_achieved_witness:
  "mostRecent [entryAt 5 70] (entryAt 5 70)
   \<and> startWeight (sampleGoal active) > targetWeight (sampleGoal active)
   \<and> weight (entryAt 5 70) \<le> targetWeight (sampleGoal active)
   \<and> alertType (fst (checkWeightVelocity sampleEnv (5 * msPerDay) [entryAt 5 70]
        (sampleGoal active))) = alert_goal_achieved"
proof -
  have m: "mostRecent [entryAt 5 70] (entryAt 5 70)"
    by (simp add: mostRecent_def)
  have g: "startWeight (sampleGoal active) > targetWeight (sampleGoal active)"
    "weight (entryAt 5 70) \<le> targetWeight (sampleGoal active)"
    by (simp_all add: sampleGoal_def entryAt_def)
  from classify_goal_achieved [of "[entryAt 5 70]" "entryAt 5 70" "sampleGoal active"
      sampleEnv "5 * msPerDay"] m g
  show ?thesis by simp
qed

text \<open>
  C8. For a losing goal whose most recent weight is still above the target (or an empty
  history): a weekly change below -1 kg gives fast loss, and a weekly change above -0.2
  and at most 0 gives slow progress.
\<close>

theorem classify_losing_velocity:
  assumes "startWeight g > targetWeight g"
    and "h = [] \<or> (\<exists>e. mostRecent h e \<and> weight e > targetWeight g)"
  shows "(calculateWeeklyChange now h < - 1 \<longrightarrow>
            alertType (fst (checkWeightVelocity env now h g)) = alert_fast_loss)
       \<and> (- 0.2 < calculateWeeklyChange now h \<and> calculateWeeklyChange now h \<le> 0 \<longrightarrow>
            alertType (fst (checkWeightVelocity env now h g)) = alert_slow_progress)"
proof -
  have lit: "- 0.2 < w \<Longrightarrow> - binary64 0.2 < w" for w :: real
    using binary64_fifth_ge by simp
  show ?thesis
  proof (cases "h = []")
    case True
    with assms(1) lit show ?thesis
      by (auto simp: checkWeightVelocity_def Let_def)
  next
    case False
    with assms(2) obtain e where e: "mostRecent h e" "weight e > targetWeight g" by auto
    from e(1) have hd: "hd (sortByDateDesc h) = e" by (rule mostRecent_eq_hd)
    from False hd e(2) assms(1) lit show ?thesis
      by (auto simp: checkWeightVelocity_def Let_def)
  qed
qed

theorem classify_losing_velocity_witness:
  "startWeight (sampleGoal active) > targetWeight (sampleGoal active)
   \<and> mostRecent [entryAt 3 85, entryAt 10 83] (entryAt 10 83)
   \<and> weight (entryAt 10 83) > targetWeight (sampleGoal active)
   \<and> calculateWeeklyChange (10 * msPerDay) [entryAt 3 85, entryAt 10 83] < - 1
   \<and> alertType (fst (checkWeightVelocity sampleEnv (10 * msPerDay)
        [entryAt 3 85, entryAt 10 83] (sampleGoal active))) = alert_fast_loss
   \<and> - 0.2 < calculateWeeklyChange (10 * msPerDay) [entryAt 3 83, entryAt 10 83]
   \<and> calculateWeeklyChange (10 * msPerDay) [entryAt 3 83, entryAt 10 83] \<le> 0
   \<and> alertType (fst (checkWeightVelocity sampleEnv (10 * msPerDay)
        [entryAt 3 83, entryAt 10 83] (sampleGoal active))) = alert_slow_progress"
proof -
  have g: "startWeight (sampleGoal active) > targetWeight (sampleGoal active)"
    "weight (entryAt 10 83) > targetWeight (sampleGoal active)"
    by (simp_all add: sampleGoal_def entryAt_def)
  have m1: "mostRecent [entryAt 3 85, entryAt 10 83] (entryAt 10 83)"
    by (simp add: mostRecent_def entryAt_def msPerDay_def)
  have m2: "mostRecent [entryAt 3 83, entryAt 10 83] (entryAt 10 83)"
    by (simp add: mostRecent_def entryAt_def msPerDay_def)
  have w1: "calculateWeeklyChange (10 * msPerDay) [entryAt 3 85, entryAt 10 83] = - 2"
    by (simp add: calculateWeeklyChange_def sample_simps)
  have w2: "calculateWeeklyChange (10 * msPerDay) [entryAt 3 83, entryAt 10 83] = 0"
    by (simp add: calculateWeeklyChange_def sample_simps)
  from classify_losing_velocity [of "sampleGoal active" "[entryAt 3 85, entryAt 10 83]"
         "10 * msPerDay" sampleEnv]
       classify_losing_velocity [of "sampleGoal active" "[entryAt 3 83, entryAt 10 83]"
         "10 * msPerDay" sampleEnv]
       g m1 m2 w1 w2
  show ?thesis by auto
qed

text \<open>
  C9, as stated, fails on its own example: for entries three days apart whose weights
  are the doubles 80 and 79.4, the division and the multiplication of the code round,
  and the result is -1.3999999999999866, which is neither -1.4 nor the double nearest
  to -1.4.
\<close>

theorem estimate_prorated_example_counterexample:
  "weight (entryAt 1 80) = 80
   \<and> weight (entryAt 4 (binary64 (794 / 10))) = binary64 (794 / 10)
   \<and> date (entryAt 4 (binary64 (794 / 10))) = date (entryAt 1 80) + 3 * msPerDay
   \<and> calculateWeeklyChange (4 * msPerDay) [entryAt 1 80, entryAt 4 (binary64 (794 / 10))]
        \<noteq> - 14 / 10
   \<and> calculateWeeklyChange (4 * msPerDay) [entryAt 1 80, entryAt 4 (binary64 (794 / 10))]
        \<noteq> binary64 (- 14 / 10)"
proof -
  have c: "calculateWeeklyChange (4 * msPerDay) [entryAt 1 80, entryAt 4 (binary64 (794 / 10))]
          = binary64 (binary64 (binary64 (binary64 (794 / 10) - 80) / 3) * 7)"
    by (simp add: calculateWeeklyChange_def sortByDateDesc_def entryAt_def msPerDay_def
          Let_def binary64_small_ints)
  show ?thesis
    unfolding c prorated_example_value binary64_minus_14_tenths
    by (simp add: entryAt_def)
qed

text \<open>
  C9, amended. With every subtraction, division and multiplication rounded to the
  nearest double, as the code computes them: for a history of at least two entries, none
  dated at or before now - 7 days, the weekly change is
  (latest weight - oldest weight) / max(1, days between them) * 7; two entries three
  days apart weighing 80 (older) and 79.4 (latest) give -3152519739159317 / 2^51, that is
  -1.3999999999999866, less than 2 / 10^14 away from -1.4, in either input order; and a
  history of fewer than two entries gives 0.
\<close>

theorem estimate_prorated:
  "(2 \<le> length h \<and> (\<forall>e \<in> set h. now - 7 * msPerDay < date e)
      \<and> mostRecent h latest \<and> oldestOf h oldest \<longrightarrow>
      calculateWeeklyChange now h
        = binary64 (binary64 (binary64 (weight latest - weight oldest)
            / max 1 (binary64 (real_of_int (date latest - date oldest) / real_of_int msPerDay)))
            * 7))
   \<and> (weight a = 80 \<and> weight b = binary64 (794 / 10) \<and> date b = date a + 3 * msPerDay
        \<and> now - 7 * msPerDay < date a \<longrightarrow>
        calculateWeeklyChange now [a, b] = - 3152519739159317 / 2 ^ 51
        \<and> calculateWeeklyChange now [b, a] = - 3152519739159317 / 2 ^ 51
        \<and> \<bar>calculateWeeklyChange now [a, b] - (- 14 / 10)\<bar> < 2 / 10 ^ 14)
   \<and> (length h < 2 \<longrightarrow> calculateWeeklyChange now h = 0)"
proof (intro conjI impI)
  assume "2 \<le> length h \<and> (\<forall>e \<in> set h. now - 7 * msPerDay < date e)
      \<and> mostRecent h latest \<and> oldestOf h oldest"
  then show "calculateWeeklyChange now h
        = binary64 (binary64 (binary64 (weight latest - weight oldest)
            / max 1 (binary64 (real_of_int (date latest - date oldest) / real_of_int msPerDay)))
            * 7)"
    using weekly_change_short_window by blast
next
  assume "length h < 2"
  then show "calculateWeeklyChange now h = 0"
    by (simp add: calculateWeeklyChange_def)
next
  assume ab: "weight a = 80 \<and> weight b = binary64 (794 / 10) \<and> date b = date a + 3 * msPerDay
        \<and> now - 7 * msPerDay < date a"
  have ma: "mostRecent [a, b] b" "oldestOf [a, b] a" "mostRecent [b, a] b" "oldestOf [b, a] a"
    using ab by (auto simp: mostRecent_def oldestOf_def msPerDay_def)
  have r: "\<forall>e \<in> set [a, b]. now - 7 * msPerDay < date e"
    "\<forall>e \<in> set [b, a]. now - 7 * msPerDay < date e"
    using ab by (auto simp: msPerDay_def)
  have d: "max 1 (binary64 (real_of_int (date b - date a) / real_of_int msPerDay)) = 3"
    using ab by (simp add: msPerDay_def binary64_small_ints)
  from ab have w: "weight a = 80" "weight b = binary64 (794 / 10)" by simp_all
  have c1: "calculateWeeklyChange now [a, b]
          = binary64 (binary64 (binary64 (weight b - weight a)
            / max 1 (binary64 (real_of_int (date b - date a) / real_of_int msPerDay))) * 7)"
    using weekly_change_short_window [OF _ r(1) ma(1,2)] by simp
  show v: "calculateWeeklyChange now [a, b] = - 3152519739159317 / 2 ^ 51"
    unfolding c1 w d by (rule prorated_example_value)
  have c2: "calculateWeeklyChange now [b, a]
          = binary64 (binary64 (binary64 (weight b - weight a)
            / max 1 (binary64 (real_of_int (date b - date a) / real_of_int msPerDay))) * 7)"
    using weekly_change_short_window [OF _ r(2) ma(3,4)] by simp
  show "calculateWeeklyChange now [b, a] = - 3152519739159317 / 2 ^ 51"
    unfolding c2 w d by (rule prorated_example_value)
  show "\<bar>calculateWeeklyChange now [a, b] - (- 14 / 10)\<bar> < 2 / 10 ^ 14"
    unfolding v by simp
qed

theorem estimate_prorated_witness:
  "calculateWeeklyChange (4 * msPerDay) [entryAt 1 80, entryAt 4 (binary64 (794 / 10))]
      = - 3152519739159317 / 2 ^ 51
   \<and> calculateWeeklyChange (4 * msPerDay) [entryAt 1 80, entryAt 2 79, entryAt 3 78]
       = binary64 (binary64 (binary64 (78 - 80) / 2) * 7)
   \<and> calculateWeeklyChange (4 * msPerDay) [entryAt 1 80] = 0"
proof -
  have m: "mostRecent [entryAt 1 80, entryAt 2 79, entryAt 3 78] (entryAt 3 78)"
    "oldestOf [entryAt 1 80, entryAt 2 79, entryAt 3 78] (entryAt 1 80)"
    by (simp_all add: mostRecent_def oldestOf_def entryAt_def msPerDay_def)
  have r: "\<forall>e \<in> set [entryAt 1 80, entryAt 2 79, entryAt 3 78].
             4 * msPerDay - 7 * msPerDay < date e"
    by (simp add: entryAt_def msPerDay_def)
  have e: "weight (entryAt 1 80) = 80"
    "weight (entryAt 4 (binary64 (794 / 10))) = binary64 (794 / 10)"
    "date (entryAt 4 (binary64 (794 / 10))) = date (entryAt 1 80) + 3 * msPerDay"
    "4 * msPerDay - 7 * msPerDay < date (entryAt 1 80)"
    by (simp_all add: entryAt_def msPerDay_def)
  have two: "binary64 2 = 2"
    using binary64_of_int [of 2] by simp
  have d: "binary64 (binary64 (binary64 (weight (entryAt 3 78) - weight (entryAt 1 80))
            / max 1 (binary64 (real_of_int (date (entryAt 3 78) - date (entryAt 1 80))
                       / real_of_int msPerDay))) * 7)
           = binary64 (binary64 (binary64 (78 - 80) / 2) * 7)"
    by (simp add: entryAt_def msPerDay_def two)
  from estimate_prorated [of "[entryAt 1 80, entryAt 2 79, entryAt 3 78]" "4 * msPerDay"
         "entryAt 3 78" "entryAt 1 80" "entryAt 1 80" "entryAt 4 (binary64 (794 / 10))"]
       estimate_prorated [of "[entryAt 1 80]" "4 * msPerDay"
         "entryAt 3 78" "entryAt 1 80" "entryAt 1 80" "entryAt 4 (binary64 (794 / 10))"]
       m r e d
  show ?thesis by simp
qed

text \<open>
  C10, as stated, fails in the fast-loss branch for a daily calorie goal that is not an
  integer: for the goal 1850.7 the suggested goal is the rounded sum 2100.7 and the
  difference is the constant 250, but 2100.7 - 1850.7 is 249.99999999999977, whether
  computed exactly or by the subtraction of the language.
\<close>

theorem analyze_difference_counterexample:
  "reason (fst (analyzeCalorieAdjustment sampleEnv (10 * msPerDay) (- 18 * msPerDay)
       fractionalGoalUser [entryAt 3 85, entryAt 10 83] None)) = fast_loss
   \<and> difference (fst (analyzeCalorieAdjustment sampleEnv (10 * msPerDay) (- 18 * msPerDay)
       fractionalGoalUser [entryAt 3 85, entryAt 10 83] None)) = 250
   \<and> suggestedGoal (fst (analyzeCalorieAdjustment sampleEnv (10 * msPerDay) (- 18 * msPerDay)
         fractionalGoalUser [entryAt 3 85, entryAt 10 83] None))
       - previousGoal (fst (analyzeCalorieAdjustment sampleEnv (10 * msPerDay) (- 18 * msPerDay)
         fractionalGoalUser [entryAt 3 85, entryAt 10 83] None)) \<noteq> 250
   \<and> binary64 (suggestedGoal (fst (analyzeCalorieAdjustment sampleEnv (10 * msPerDay)
         (- 18 * msPerDay) fractionalGoalUser [entryAt 3 85, entryAt 10 83] None))
       - previousGoal (fst (analyzeCalorieAdjustment sampleEnv (10 * msPerDay) (- 18 * msPerDay)
         fractionalGoalUser [entryAt 3 85, entryAt 10 83] None))) \<noteq> 250"
proof -
  let ?r = "fst (analyzeCalorieAdjustment sampleEnv (10 * msPerDay) (- 18 * msPerDay)
       fractionalGoalUser [entryAt 3 85, entryAt 10 83] None)"
  have u: "weightGoal fractionalGoalUser = Some (sampleGoal active)"
    "status (sampleGoal active) = active"
    "orNumber (userWeight fractionalGoalUser) 70 = 83"
    "orNumber None (83::real) = 83"
    by (simp_all add: fractionalGoalUser_def sampleUser_def sampleGoal_def orNumber_def)
  have g: "dailyCalorieGoal fractionalGoalUser = binary64 (18507 / 10)"
    unfolding fractionalGoalUser_def sampleUser_def by (simp only: User.simps)
  have a: "alertType (fst (checkWeightVelocity sampleEnv (10 * msPerDay)
       [entryAt 3 85, entryAt 10 83] (sampleGoal active))) = alert_fast_loss"
    by (simp add: checkWeightVelocity_def calculateWeeklyChange_def sample_simps)
  have r: "\<not> shouldRecalculate (shouldRecalculateCalories sampleEnv (- 18 * msPerDay) 83 83
       [entryAt 3 85, entryAt 10 83])"
    by (simp add: shouldRecalculateCalories_def sample_simps)
  have rec: "?r = \<lparr>shouldAdjust = True, reason = fast_loss,
           previousGoal = dailyCalorieGoal fractionalGoalUser,
           suggestedGoal = binary64 (dailyCalorieGoal fractionalGoalUser + 250),
           difference = 250,
           message = orString (recommendation (fst (checkWeightVelocity sampleEnv (10 * msPerDay)
              [entryAt 3 85, entryAt 10 83] (sampleGoal active)))) ''Considere aumentar calorias'',
           severity = warning\<rparr>"
    using a r by (simp add: analyze_active [OF u(1,2)] Let_def u(3,4))
  have f: "reason ?r = fast_loss" "difference ?r = 250"
    "previousGoal ?r = 8139464678100173 / 2 ^ 42"
    unfolding rec g
    by (simp_all only: CalorieAdjustment.simps fractional_goal_value)
  have s: "suggestedGoal ?r = 2309744076469043 / 2 ^ 40"
    unfolding rec g
    by (simp only: CalorieAdjustment.simps fractional_goal_sum)
  show ?thesis
    unfolding f s fractional_goal_back by simp
qed

text \<open>
  C10, amended. Whatever the input, the previous goal of the adjustment is the profile's
  daily calorie goal, and when the analysis does not adjust the suggested goal is the
  previous goal and the difference is 0. The difference is the suggested goal minus the
  previous goal, as the subtraction of the code rounds it, in every branch but the
  fast-loss and the maintenance-week ones; there the difference is the constant 250 or
  300 and the suggested goal is the rounded sum of the previous goal and that constant.
  When the daily calorie goal is an integer, the difference is the suggested goal minus
  the previous goal in every branch.
\<close>

theorem analyze_result_invariants:
  "previousGoal (fst (analyzeCalorieAdjustment env now cutoff user h lcw)) = dailyCalorieGoal user
   \<and> (\<not> shouldAdjust (fst (analyzeCalorieAdjustment env now cutoff user h lcw)) \<longrightarrow>
        suggestedGoal (fst (analyzeCalorieAdjustment env now cutoff user h lcw))
          = previousGoal (fst (analyzeCalorieAdjustment env now cutoff user h lcw))
        \<and> difference (fst (analyzeCalorieAdjustment env now cutoff user h lcw)) = 0)
   \<and> (difference (fst (analyzeCalorieAdjustment env now cutoff user h lcw))
         = binary64 (suggestedGoal (fst (analyzeCalorieAdjustment env now cutoff user h lcw))
             - previousGoal (fst (analyzeCalorieAdjustment env now cutoff user h lcw)))
       \<or> reason (fst (analyzeCalorieAdjustment env now cutoff user h lcw)) = fast_loss
          \<and> difference (fst (analyzeCalorieAdjustment env now cutoff user h lcw)) = 250
          \<and> suggestedGoal (fst (analyzeCalorieAdjustment env now cutoff user h lcw))
              = binary64 (previousGoal (fst (analyzeCalorieAdjustment env now cutoff user h lcw))
                  + 250)
       \<or> reason (fst (analyzeCalorieAdjustment env now cutoff user h lcw)) = plateau_detected
          \<and> difference (fst (analyzeCalorieAdjustment env now cutoff user h lcw)) = 300
          \<and> suggestedGoal (fst (analyzeCalorieAdjustment env now cutoff user h lcw))
              = binary64 (previousGoal (fst (analyzeCalorieAdjustment env now cutoff user h lcw))
                  + 300))
   \<and> (\<forall>n. dailyCalorieGoal user = of_int n \<and> \<bar>n\<bar> + 300 < 2 ^ 53 \<longrightarrow>
        difference (fst (analyzeCalorieAdjustment env now cutoff user h lcw))
          = binary64 (suggestedGoal (fst (analyzeCalorieAdjustment env now cutoff user h lcw))
              - previousGoal (fst (analyzeCalorieAdjustment env now cutoff user h lcw))))"
proof -
  let ?r = "fst (analyzeCalorieAdjustment env now cutoff user h lcw)"
  have main: "previousGoal ?r = dailyCalorieGoal user
     \<and> (\<not> shouldAdjust ?r \<longrightarrow> suggestedGoal ?r = previousGoal ?r \<and> difference ?r = 0)
     \<and> (difference ?r = binary64 (suggestedGoal ?r - previousGoal ?r)
         \<or> reason ?r = fast_loss \<and> difference ?r = 250
            \<and> suggestedGoal ?r = binary64 (previousGoal ?r + 250)
         \<or> reason ?r = plateau_detected \<and> difference ?r = 300
            \<and> suggestedGoal ?r = binary64 (previousGoal ?r + 300))"
  proof (cases "weightGoal user = None \<or> (\<exists>g. weightGoal user = Some g \<and> status g \<noteq> active)")
    case True
    then show ?thesis
      using analyze_inactive [OF True, of env now cutoff h lcw] by (simp add: binary64_0)
  next
    case False
    then obtain g where g: "weightGoal user = Some g" "status g = active"
      by (cases "weightGoal user") auto
    show ?thesis
      by (simp add: analyze_active [OF g] Let_def binary64_0)
  qed
  have ints: "difference ?r = binary64 (suggestedGoal ?r - previousGoal ?r)"
    if n: "dailyCalorieGoal user = of_int n \<and> \<bar>n\<bar> + 300 < 2 ^ 53" for n
  proof -
    from main have p: "previousGoal ?r = of_int n" using n by simp
    have rt: "binary64 (binary64 (of_int n + of_int k) - of_int n) = of_int k"
      if k: "k = 250 \<or> k = 300" for k :: int
    proof -
      from n k have b: "\<bar>n + k\<bar> < 2 ^ 53" "\<bar>k\<bar> < 2 ^ 53" by auto
      have "binary64 (of_int n + of_int k) = (of_int n + of_int k :: real)"
        by (rule binary64_int_sum [OF refl b(1)])
      then show ?thesis
        using binary64_of_int [OF b(2)] by simp
    qed
    from main consider
        "difference ?r = binary64 (suggestedGoal ?r - previousGoal ?r)"
      | "difference ?r = 250" "suggestedGoal ?r = binary64 (previousGoal ?r + 250)"
      | "difference ?r = 300" "suggestedGoal ?r = binary64 (previousGoal ?r + 300)"
      by blast
    then show ?thesis
    proof cases
      case 1
      then show ?thesis .
    next
      case 2
      then show ?thesis
        unfolding p using rt [of 250] by simp
    next
      case 3
      then show ?thesis
        unfolding p using rt [of 300] by simp
    qed
  qed
  from main ints show ?thesis by blast
qed

theorem analyze_result_invariants_witness:
  "\<not> shouldAdjust (fst (analyzeCalorieAdjustment sampleEnv (10 * msPerDay) (- 18 * msPerDay)
        (sampleUser 83 (Some (sampleGoal active))) [entryAt 3 83, entryAt 10 83] None))
   \<and> suggestedGoal (fst (analyzeCalorieAdjustment sampleEnv (10 * msPerDay) (- 18 * msPerDay)
        (sampleUser 83 (Some (sampleGoal active))) [entryAt 3 83, entryAt 10 83] None)) = 2000
   \<and> difference (fst (analyzeCalorieAdjustment sampleEnv (10 * msPerDay) (- 18 * msPerDay)
        (sampleUser 83 (Some (sampleGoal active))) [entryAt 3 83, entryAt 10 83] None)) = 0
   \<and> dailyCalorieGoal (sampleUser 83 (Some (sampleGoal active))) = of_int 2000
   \<and> reason (fst (analyzeCalorieAdjustment sampleEnv (10 * msPerDay) (- 18 * msPerDay)
        (sampleUser 83 (Some (sampleGoal active))) [entryAt 3 85, entryAt 10 83] None)) = fast_loss
   \<and> difference (fst (analyzeCalorieAdjustment sampleEnv (10 * msPerDay) (- 18 * msPerDay)
        (sampleUser 83 (Some (sampleGoal active))) [entryAt 3 85, entryAt 10 83] None))
      = binary64 (suggestedGoal (fst (analyzeCalorieAdjustment sampleEnv (10 * msPerDay)
            (- 18 * msPerDay) (sampleUser 83 (Some (sampleGoal active)))
            [entryAt 3 85, entryAt 10 83] None))
          - previousGoal (fst (analyzeCalorieAdjustment sampleEnv (10 * msPerDay)
            (- 18 * msPerDay) (sampleUser 83 (Some (sampleGoal active)))
            [entryAt 3 85, entryAt 10 83] None)))"
proof -
  have u: "weightGoal (sampleUser 83 (Some (sampleGoal active))) = Some (sampleGoal active)"
    "status (sampleGoal active) = active"
    by (simp_all add: sampleUser_def sampleGoal_def)
  have a: "alertType (fst (checkWeightVelocity sampleEnv (10 * msPerDay)
       [entryAt 3 83, entryAt 10 83] (sampleGoal active))) = alert_slow_progress"
    by (simp add: checkWeightVelocity_def calculateWeeklyChange_def sample_simps binary64_fifth)
  have a': "alertType (fst (checkWeightVelocity sampleEnv (10 * msPerDay)
       [entryAt 3 85, entryAt 10 83] (sampleGoal active))) = alert_fast_loss"
    by (simp add: checkWeightVelocity_def calculateWeeklyChange_def sample_simps)
  have r: "\<not> shouldRecalculate (shouldRecalculateCalories sampleEnv (- 18 * msPerDay) 83 83 hh)"
    if "length hh = 2" for hh
    using that by (simp add: shouldRecalculateCalories_def sample_simps)
  have n: "\<not> shouldAdjust (fst (analyzeCalorieAdjustment sampleEnv (10 * msPerDay)
        (- 18 * msPerDay) (sampleUser 83 (Some (sampleGoal active)))
        [entryAt 3 83, entryAt 10 83] None))"
    using a r [of "[entryAt 3 83, entryAt 10 83]"]
    by (simp add: analyze_active [OF u] Let_def) (simp add: sampleUser_def orNumber_def)
  have f: "reason (fst (analyzeCalorieAdjustment sampleEnv (10 * msPerDay) (- 18 * msPerDay)
        (sampleUser 83 (Some (sampleGoal active))) [entryAt 3 85, entryAt 10 83] None)) = fast_loss"
    using a' r [of "[entryAt 3 85, entryAt 10 83]"]
    by (simp add: analyze_active [OF u] Let_def) (simp add: sampleUser_def orNumber_def)
  have d: "dailyCalorieGoal (sampleUser 83 (Some (sampleGoal active))) = of_int 2000"
    "dailyCalorieGoal (sampleUser 83 (Some (sampleGoal active))) = 2000"
    by (simp_all add: sampleUser_def)
  have b: "\<bar>2000 :: int\<bar> + 300 < 2 ^ 53" by simp
  from analyze_result_invariants [of sampleEnv "10 * msPerDay" "- 18 * msPerDay"
        "sampleUser 83 (Some (sampleGoal active))" "[entryAt 3 83, entryAt 10 83]" None]
       analyze_result_invariants [of sampleEnv "10 * msPerDay" "- 18 * msPerDay"
        "sampleUser 83 (Some (sampleGoal active))" "[entryAt 3 85, entryAt 10 83]" None]
       n f d b
  show ?thesis by auto
qed

end
